theory Spec2Isabelle
  imports Complex_Main "HOL-Library.AList" "HOL-Library.Multiset"
begin

section \<open>Python values\<close>

text \<open>
  A Python float is a finite double, modelled by the \<^typ>\<open>real\<close> it stands for; every
  formula below is the exact-arithmetic reading of the source expression, so a value of
  the code can differ from the model's in its last bits. Two effects of doubles that are
  larger than that are written out where they occur: a sum beyond the double range
  overflows to infinity (\<open>float_overflows\<close>), and \<open>round\<close> meets decimal ties
  (\<open>py_round\<close>). A Python \<open>str\<close> is a \<^typ>\<open>string\<close> whose characters
  stand for code points below 256. A Python \<open>dict\<close> is an association list in insertion
  order with distinct keys: \<open>d[k] = v\<close> is \<^const>\<open>AList.update\<close> (overwrite in place, else
  append), \<open>d.get(k)\<close> is \<^const>\<open>map_of\<close>.
\<close>

type_synonym 'v dict = "(string \<times> 'v) list"

definition dict_get :: "'v dict \<Rightarrow> string \<Rightarrow> 'v \<Rightarrow> 'v" where
  "dict_get d k dflt = (case map_of d k of None \<Rightarrow> dflt | Some v \<Rightarrow> v)"

text \<open>\<open>str.lower()\<close> on code points below 256: A-Z and the Latin-1 capitals move up by 32,
  which sets bit 5 of the code point (it is clear in every one of them).\<close>

definition lower_char :: "char \<Rightarrow> char" where
  "lower_char c =
     (let n = of_char c :: nat
      in if (65 \<le> n \<and> n \<le> 90) \<or> (192 \<le> n \<and> n \<le> 222 \<and> n \<noteq> 215)
         then (case c of Char b0 b1 b2 b3 b4 b5 b6 b7 \<Rightarrow> Char b0 b1 b2 b3 b4 True b6 b7)
         else c)"

definition lower :: "string \<Rightarrow> string" where
  "lower s = map lower_char s"

text \<open>\<open>str.strip()\<close>: whitespace code points below 256 are removed at both ends.\<close>

definition is_space :: "char \<Rightarrow> bool" where
  "is_space c =
     (let n = of_char c :: nat
      in (9 \<le> n \<and> n \<le> 13) \<or> (28 \<le> n \<and> n \<le> 32) \<or> n = 133 \<or> n = 160)"

definition strip :: "string \<Rightarrow> string" where
  "strip s = rev (dropWhile is_space (rev (dropWhile is_space s)))"

text \<open>\<open>xs[:n]\<close> for any integer \<open>n\<close>: a negative \<open>n\<close> counts from the end.\<close>

definition slice_to :: "'a list \<Rightarrow> int \<Rightarrow> 'a list" where
  "slice_to xs n =
     (if 0 \<le> n then take (nat n) xs else take (nat (int (length xs) + n)) xs)"

text \<open>
  \<open>round(x, k)\<close> returns a multiple of \<open>10^-k\<close> nearest to \<open>x\<close>. The model applies it to
  the exact value and sends an exact decimal tie (such as 0.525 for \<open>k = 2\<close>) to the even
  neighbour; the code rounds the double that stands for the value, which lies just above
  or below the tie, so there it may return the other neighbour.
\<close>

definition round_half_even :: "real \<Rightarrow> int" where
  "round_half_even y =
     (let f = \<lfloor>y\<rfloor>; d = y - of_int f
      in if d < 1 / 2 then f
         else if 1 / 2 < d then f + 1
         else if even f then f else f + 1)"

definition py_round :: "real \<Rightarrow> nat \<Rightarrow> real" where
  "py_round x k = of_int (round_half_even (x * 10 ^ k)) / 10 ^ k"

text \<open>
  \<open>sorted(xs, key=f, reverse=True)\<close> and \<open>xs.sort(key=f, reverse=True)\<close>: a stable sort
  into descending key order (elements with equal keys keep their order).
\<close>

definition sorted_reverse :: "('a \<Rightarrow> real) \<Rightarrow> 'a list \<Rightarrow> 'a list" where
  "sorted_reverse f xs = sort_key (\<lambda>x. - f x) xs"

section \<open>classifier.py\<close>

datatype error = ZeroDivisionError

text \<open>
  The external classifier: given the text it returns the list of (label, score) results,
  or \<open>None\<close> when loading or running the model raises.
\<close>

type_synonym classifier = "string \<Rightarrow> (string \<times> real) list option"

definition classify_text :: "classifier \<Rightarrow> string \<Rightarrow> real dict" where
  "classify_text classifier text =
     (if text = [] \<or> length (strip text) < 10 then []
      else
        let text = (if length text > 512 then take 512 text else text)
        in case classifier text of
             None \<Rightarrow> []
           | Some results \<Rightarrow>
               fold (\<lambda>(label, score) emotions. AList.update (lower label) score emotions)
                 results [])"

definition MODEL_TO_CATEGORY :: "(string \<times> string option) list" where
  "MODEL_TO_CATEGORY =
    [(''joy'', Some ''pure_joy''),
     (''sadness'', Some ''cathartic_sadness''),
     (''anger'', Some ''righteous_anger''),
     (''fear'', Some ''controlled_fear''),
     (''surprise'', Some ''mind_blown''),
     (''disgust'', Some ''controlled_fear''),
     (''neutral'', None),
     (''love'', Some ''romantic_warmth''),
     (''excitement'', Some ''thrilling_tension''),
     (''admiration'', Some ''triumphant_inspired''),
     (''amusement'', Some ''pure_joy''),
     (''gratitude'', Some ''bittersweet_hope''),
     (''optimism'', Some ''bittersweet_hope''),
     (''relief'', Some ''cozy_comfort''),
     (''pride'', Some ''triumphant_inspired''),
     (''curiosity'', Some ''intellectual_stimulation''),
     (''confusion'', Some ''mind_blown''),
     (''nervousness'', Some ''thrilling_tension''),
     (''remorse'', Some ''cathartic_sadness''),
     (''grief'', Some ''cathartic_sadness''),
     (''disappointment'', Some ''cathartic_sadness''),
     (''embarrassment'', Some ''cathartic_sadness''),
     (''realization'', Some ''mind_blown''),
     (''approval'', Some ''cozy_comfort''),
     (''caring'', Some ''romantic_warmth''),
     (''desire'', Some ''romantic_warmth''),
     (''annoyance'', Some ''righteous_anger''),
     (''disapproval'', Some ''righteous_anger'')]"

text \<open>
  \<open>category = MODEL_TO_CATEGORY.get(emotion.lower())\<close> followed by \<open>if category:\<close>:
  a missing label, the value \<open>None\<close> and an empty string all skip the label.
\<close>

definition model_category :: "string \<Rightarrow> string option" where
  "model_category emotion =
     (case map_of MODEL_TO_CATEGORY (lower emotion) of
        None \<Rightarrow> None
      | Some None \<Rightarrow> None
      | Some (Some category) \<Rightarrow> if category = [] then None else Some category)"

definition map_step :: "string \<times> real \<Rightarrow> real dict \<Rightarrow> real dict" where
  "map_step item category_scores =
     (case model_category (fst item) of
        None \<Rightarrow> category_scores
      | Some category \<Rightarrow>
          (case map_of category_scores category of
             Some old \<Rightarrow> AList.update category (max old (snd item)) category_scores
           | None \<Rightarrow> AList.update category (snd item) category_scores))"

definition map_to_categories :: "real dict \<Rightarrow> real dict" where
  "map_to_categories emotions = fold map_step emotions []"


section \<open>genre_mapper.py\<close>

definition GENRE_EMOTION_MAP :: "(string \<times> real dict) list" where
  "GENRE_EMOTION_MAP =
    [(''action'',
        [(''thrilling_tension'', 0.8), (''triumphant_inspired'', 0.6),
         (''righteous_anger'', 0.4), (''awe_wonder'', 0.3)]),
     (''adventure'',
        [(''awe_wonder'', 0.8), (''thrilling_tension'', 0.6),
         (''triumphant_inspired'', 0.5), (''pure_joy'', 0.4)]),
     (''thriller'',
        [(''thrilling_tension'', 0.9), (''controlled_fear'', 0.6),
         (''mind_blown'', 0.5), (''intellectual_stimulation'', 0.4)]),
     (''drama'',
        [(''cathartic_sadness'', 0.7), (''bittersweet_hope'', 0.6),
         (''intellectual_stimulation'', 0.4), (''triumphant_inspired'', 0.3)]),
     (''romance'',
        [(''romantic_warmth'', 0.9), (''bittersweet_hope'', 0.5),
         (''cathartic_sadness'', 0.3), (''pure_joy'', 0.4)]),
     (''comedy'',
        [(''pure_joy'', 0.9), (''cozy_comfort'', 0.5), (''romantic_warmth'', 0.3)]),
     (''family'',
        [(''cozy_comfort'', 0.8), (''pure_joy'', 0.7),
         (''bittersweet_hope'', 0.4), (''romantic_warmth'', 0.3)]),
     (''animation'',
        [(''awe_wonder'', 0.7), (''pure_joy'', 0.6), (''cozy_comfort'', 0.5)]),
     (''horror'',
        [(''controlled_fear'', 0.9), (''thrilling_tension'', 0.7),
         (''cathartic_sadness'', 0.2)]),
     (''crime'',
        [(''thrilling_tension'', 0.7), (''righteous_anger'', 0.6),
         (''intellectual_stimulation'', 0.5), (''mind_blown'', 0.4)]),
     (''mystery'',
        [(''intellectual_stimulation'', 0.8), (''thrilling_tension'', 0.6),
         (''mind_blown'', 0.7)]),
     (''war'',
        [(''cathartic_sadness'', 0.7), (''righteous_anger'', 0.6),
         (''triumphant_inspired'', 0.5), (''thrilling_tension'', 0.5)]),
     (''science fiction'',
        [(''awe_wonder'', 0.8), (''intellectual_stimulation'', 0.7),
         (''mind_blown'', 0.6), (''thrilling_tension'', 0.4)]),
     (''fantasy'',
        [(''awe_wonder'', 0.8), (''pure_joy'', 0.5),
         (''triumphant_inspired'', 0.5), (''romantic_warmth'', 0.3)]),
     (''documentary'',
        [(''intellectual_stimulation'', 0.9), (''mind_blown'', 0.5), (''awe_wonder'', 0.4)]),
     (''music'',
        [(''pure_joy'', 0.7), (''triumphant_inspired'', 0.6), (''romantic_warmth'', 0.5)]),
     (''history'',
        [(''intellectual_stimulation'', 0.7), (''bittersweet_hope'', 0.5),
         (''cathartic_sadness'', 0.4)]),
     (''western'',
        [(''righteous_anger'', 0.6), (''thrilling_tension'', 0.5),
         (''triumphant_inspired'', 0.4)])]"

text \<open>The body of the inner loop of \<open>get_genre_emotions\<close>, for one (emotion, score) item.\<close>

definition emotion_step :: "string \<times> real \<Rightarrow> real dict \<Rightarrow> real dict" where
  "emotion_step item emotion_scores =
     (case map_of emotion_scores (fst item) of
        Some old \<Rightarrow> AList.update (fst item) ((old + snd item) / 2) emotion_scores
      | None \<Rightarrow> AList.update (fst item) (snd item) emotion_scores)"

text \<open>The body of the outer loop, for one genre (the counter \<open>genre_count\<close> is never read).\<close>

definition genre_step :: "string \<Rightarrow> real dict \<Rightarrow> real dict" where
  "genre_step genre emotion_scores =
     (let genre_lower = strip (lower genre)
      in case map_of GENRE_EMOTION_MAP genre_lower of
           Some genre_emotions \<Rightarrow> fold emotion_step genre_emotions emotion_scores
         | None \<Rightarrow> emotion_scores)"

definition get_genre_emotions :: "string list \<Rightarrow> real dict" where
  "get_genre_emotions genres = (if genres = [] then [] else fold genre_step genres [])"

definition get_intensity_from_genres :: "string list \<Rightarrow> real" where
  "get_intensity_from_genres genres =
     (let HIGH_INTENSITY = [''action'', ''thriller'', ''horror'', ''war'', ''crime''];
          MEDIUM_INTENSITY =
            [''adventure'', ''mystery'', ''science fiction'', ''drama'', ''western''];
          LOW_INTENSITY = [''comedy'', ''family'', ''romance'', ''animation'', ''music''];
          scores = map (\<lambda>genre.
                     let genre_lower = strip (lower genre)
                     in if genre_lower \<in> set HIGH_INTENSITY then 8
                        else if genre_lower \<in> set MEDIUM_INTENSITY then 5
                        else if genre_lower \<in> set LOW_INTENSITY then 3
                        else (5::real)) genres
      in if scores \<noteq> [] then sum_list scores / real (length scores) else 5)"

definition get_comfort_from_genres :: "string list \<Rightarrow> real" where
  "get_comfort_from_genres genres =
     (let HIGH_COMFORT = [''comedy'', ''family'', ''animation'', ''romance'', ''music''];
          MEDIUM_COMFORT = [''adventure'', ''fantasy'', ''drama'', ''documentary''];
          LOW_COMFORT = [''horror'', ''thriller'', ''war'', ''crime''];
          scores = map (\<lambda>genre.
                     let genre_lower = strip (lower genre)
                     in if genre_lower \<in> set HIGH_COMFORT then 8
                        else if genre_lower \<in> set MEDIUM_COMFORT then 5
                        else if genre_lower \<in> set LOW_COMFORT then 2
                        else (5::real)) genres
      in if scores \<noteq> [] then sum_list scores / real (length scores) else 5)"

text \<open>
  The running average in the words of the specification: the values that the known
  genres of the input give to category \<open>c\<close>, in input order, folded by \<open>(acc + s) / 2\<close>
  from the first value.
\<close>

definition genre_value :: "string \<Rightarrow> string \<Rightarrow> real option" where
  "genre_value genre c =
     (case map_of GENRE_EMOTION_MAP (strip (lower genre)) of
        None \<Rightarrow> None
      | Some genre_emotions \<Rightarrow> map_of genre_emotions c)"

definition contributions :: "string list \<Rightarrow> string \<Rightarrow> real list" where
  "contributions genres c = List.map_filter (\<lambda>genre. genre_value genre c) genres"

definition running_average :: "real list \<Rightarrow> real option" where
  "running_average vs =
     (case vs of [] \<Rightarrow> None | v # rest \<Rightarrow> Some (foldl (\<lambda>acc s. (acc + s) / 2) v rest))"

section \<open>profiler.py\<close>

definition EMOTION_CATEGORIES :: "string list" where
  "EMOTION_CATEGORIES =
    [''cathartic_sadness'', ''thrilling_tension'', ''mind_blown'', ''pure_joy'',
     ''bittersweet_hope'', ''righteous_anger'', ''cozy_comfort'', ''controlled_fear'',
     ''intellectual_stimulation'', ''romantic_warmth'', ''triumphant_inspired'',
     ''awe_wonder'']"

record EmotionProfile =
  emotion_scores :: "real dict"
  dominant_emotions :: "string list"
  intensity_score :: real
  catharsis_score :: real
  comfort_score :: real
  confidence :: real

text \<open>\<open>max(xs) if xs else 0\<close> and \<open>sum(xs) / len(xs) if xs else 0\<close>.\<close>

definition max_or_zero :: "real list \<Rightarrow> real" where
  "max_or_zero xs = (case xs of [] \<Rightarrow> 0 | x # rest \<Rightarrow> fold max rest x)"

definition mean_or_zero :: "real list \<Rightarrow> real" where
  "mean_or_zero xs = (if xs \<noteq> [] then sum_list xs / real (length xs) else 0)"

definition calculate_intensity :: "real dict \<Rightarrow> string list \<Rightarrow> real" where
  "calculate_intensity emotions genres =
     (let HIGH_INTENSITY_EMOTIONS =
            [''thrilling_tension'', ''controlled_fear'', ''righteous_anger'', ''mind_blown''];
          intensity_scores = map (\<lambda>e. dict_get emotions e 0) HIGH_INTENSITY_EMOTIONS;
          emotion_intensity = max_or_zero intensity_scores;
          genre_intensity = get_intensity_from_genres genres / 10;
          combined = emotion_intensity * 0.7 + genre_intensity * 0.3
      in combined * 10)"

definition calculate_catharsis :: "real dict \<Rightarrow> real" where
  "calculate_catharsis emotions =
     (let CATHARTIC_EMOTIONS =
            [''cathartic_sadness'', ''bittersweet_hope'', ''triumphant_inspired'',
             ''awe_wonder''];
          catharsis_scores = map (\<lambda>e. dict_get emotions e 0) CATHARTIC_EMOTIONS;
          max_catharsis = max_or_zero catharsis_scores;
          avg_catharsis = mean_or_zero catharsis_scores
      in (max_catharsis * 0.7 + avg_catharsis * 0.3) * 10)"

definition calculate_comfort :: "real dict \<Rightarrow> string list \<Rightarrow> real" where
  "calculate_comfort emotions genres =
     (let COMFORT_EMOTIONS = [''pure_joy'', ''cozy_comfort'', ''romantic_warmth''];
          DISCOMFORT_EMOTIONS =
            [''controlled_fear'', ''thrilling_tension'', ''cathartic_sadness''];
          comfort_scores = map (\<lambda>e. dict_get emotions e 0) COMFORT_EMOTIONS;
          discomfort_scores = map (\<lambda>e. dict_get emotions e 0) DISCOMFORT_EMOTIONS;
          comfort = mean_or_zero comfort_scores;
          discomfort = mean_or_zero discomfort_scores;
          genre_comfort = get_comfort_from_genres genres / 10;
          net_comfort = comfort - discomfort * 0.5;
          combined = net_comfort * 0.6 + genre_comfort * 0.4
      in max 0 (min 10 (combined * 10)))"

text \<open>The body of the loop over \<open>EMOTION_CATEGORIES\<close> that builds \<open>combined_emotions\<close>.\<close>

definition combine_step ::
  "real dict \<Rightarrow> real dict \<Rightarrow> real \<Rightarrow> real \<Rightarrow> string \<Rightarrow> real dict \<Rightarrow> real dict" where
  "combine_step nlp_emotions genre_emotions nlp_weight genre_weight category combined_emotions =
     (let nlp_score = dict_get nlp_emotions category 0;
          genre_score = dict_get genre_emotions category 0;
          combined_score = nlp_score * nlp_weight + genre_score * genre_weight
      in if combined_score > 0.01
         then AList.update category (py_round combined_score 3) combined_emotions
         else combined_emotions)"

text \<open>
  The text branch of \<open>create_emotion_profile\<close>: the pair (\<open>nlp_emotions\<close>, \<open>confidence\<close>)
  after the block guarded by \<open>if overview and len(overview) > 20\<close>. \<open>overview\<close> is \<open>None\<close>
  when the caller passes no text.
\<close>

definition text_emotions :: "classifier \<Rightarrow> string option \<Rightarrow> real dict \<times> real" where
  "text_emotions classifier overview =
     (case overview of
        None \<Rightarrow> ([], 0.5)
      | Some text \<Rightarrow>
          if text \<noteq> [] \<and> length text > 20
          then (map_to_categories (classify_text classifier text),
                min 0.9 (0.5 + real (length text) / 1000))
          else ([], 0.5))"

text \<open>The loop over \<open>EMOTION_CATEGORIES\<close> that builds \<open>combined_emotions\<close>.\<close>

definition combine_emotions :: "real dict \<Rightarrow> real dict \<Rightarrow> real \<Rightarrow> real \<Rightarrow> real dict" where
  "combine_emotions nlp_emotions genre_emotions nlp_weight genre_weight =
     fold (combine_step nlp_emotions genre_emotions nlp_weight genre_weight)
       EMOTION_CATEGORIES []"

text \<open>The body of \<open>create_emotion_profile\<close> once the two weights are normalised.\<close>

definition synthesize_profile ::
  "classifier \<Rightarrow> string option \<Rightarrow> string list \<Rightarrow> real \<Rightarrow> real \<Rightarrow> EmotionProfile" where
  "synthesize_profile classifier overview genres nlp_weight genre_weight =
     (let (nlp_emotions, confidence) = text_emotions classifier overview;
          genre_emotions = get_genre_emotions genres;
          combined_emotions =
            combine_emotions nlp_emotions genre_emotions nlp_weight genre_weight;
          sorted_emotions = sorted_reverse snd combined_emotions;
          dominant_emotions = map fst (take 3 sorted_emotions);
          intensity = calculate_intensity combined_emotions genres;
          catharsis = calculate_catharsis combined_emotions;
          comfort = calculate_comfort combined_emotions genres
      in \<lparr>emotion_scores = combined_emotions,
          dominant_emotions = dominant_emotions,
          intensity_score = py_round intensity 1,
          catharsis_score = py_round catharsis 1,
          comfort_score = py_round comfort 1,
          confidence = py_round confidence 2\<rparr>)"

text \<open>
  A double sum overflows to plus or minus infinity when the exact sum rounds beyond the
  largest double \<open>2^1024 - 2^971\<close>, that is from \<open>2^1024 - 2^970\<close> on.
\<close>

definition float_overflows :: "real \<Rightarrow> bool" where
  "float_overflows x = (2 ^ 1024 - 2 ^ 970 \<le> \<bar>x\<bar>)"

text \<open>
  The first three statements of \<open>create_emotion_profile\<close>, on two float weights (the
  annotated type): \<open>total_weight = nlp_weight + genre_weight\<close>, then each weight divided
  by it. Dividing by a zero \<open>total_weight\<close> raises \<open>ZeroDivisionError\<close>. When the sum
  overflows, \<open>total_weight\<close> is infinite and each finite weight divided by it is 0.0.
\<close>

definition normalize_weights :: "real \<Rightarrow> real \<Rightarrow> error + real \<times> real" where
  "normalize_weights nlp_weight genre_weight =
     (let total_weight = nlp_weight + genre_weight
      in if total_weight = 0 then Inl ZeroDivisionError
         else if float_overflows total_weight then Inr (0, 0)
         else Inr (nlp_weight / total_weight, genre_weight / total_weight))"

text \<open>
  Nothing after the division raises (\<open>classify_text\<close> catches what the classifier
  raises).
\<close>

definition create_emotion_profile ::
  "classifier \<Rightarrow> string option \<Rightarrow> string list \<Rightarrow> real \<Rightarrow> real \<Rightarrow> error + EmotionProfile" where
  "create_emotion_profile classifier overview genres nlp_weight genre_weight =
     (case normalize_weights nlp_weight genre_weight of
        Inl e \<Rightarrow> Inl e
      | Inr (nlp_weight, genre_weight) \<Rightarrow>
          Inr (synthesize_profile classifier overview genres nlp_weight genre_weight))"

text \<open>
  The confidence of a profile in closed form: 0.5 without a text longer than 20
  characters, else the capped length formula rounded to 2 decimals.
\<close>

definition spec_confidence :: "string option \<Rightarrow> real" where
  "spec_confidence overview =
     (case overview of
        None \<Rightarrow> 0.5
      | Some text \<Rightarrow>
          if length text \<le> 20 then 0.5
          else py_round (min 0.9 (0.5 + real (length text) / 1000)) 2)"

text \<open>Every value of a dictionary lies in \<open>[lo, hi]\<close>.\<close>

definition values_within :: "real \<Rightarrow> real \<Rightarrow> real dict \<Rightarrow> bool" where
  "values_within lo hi d = (\<forall>item \<in> set d. lo \<le> snd item \<and> snd item \<le> hi)"

text \<open>
  The classifier contract of the specification: every score it returns lies in \<open>[0, 1]\<close>.
\<close>

definition classifier_contract :: "classifier \<Rightarrow> bool" where
  "classifier_contract classifier =
     (\<forall>t results. classifier t = Some results \<longrightarrow> values_within 0 1 results)"

text \<open>
  The combined score of a category in the words of the specification:
  \<open>nlp_score * nlp_weight + genre_score * genre_weight\<close>, a missing score counting as 0.
\<close>

definition combined_score :: "real dict \<Rightarrow> real dict \<Rightarrow> real \<Rightarrow> real \<Rightarrow> string \<Rightarrow> real" where
  "combined_score nlp_emotions genre_emotions nlp_weight genre_weight category =
     dict_get nlp_emotions category 0 * nlp_weight
     + dict_get genre_emotions category 0 * genre_weight"




definition silent_classifier :: classifier where
  "silent_classifier = (\<lambda>text. Some [])"

definition sample_classifier :: classifier where
  "sample_classifier = (\<lambda>text. Some [(''joy'', 0.8), (''sadness'', 0.15), (''neutral'', 0.05)])"




section \<open>engine.py\<close>

definition MOOD_PRESETS :: "(string \<times> string dict) list" where
  "MOOD_PRESETS =
    [(''stressed'', [(''intensity'', ''low''), (''comfort'', ''high'')]),
     (''sad'', [(''primary'', ''cathartic_sadness''), (''comfort'', ''medium'')]),
     (''bored'', [(''intensity'', ''high''), (''primary'', ''thrilling_tension'')]),
     (''anxious'', [(''comfort'', ''high''), (''intensity'', ''low'')]),
     (''happy'', [(''primary'', ''pure_joy''), (''comfort'', ''high'')]),
     (''lonely'', [(''primary'', ''romantic_warmth''), (''comfort'', ''high'')]),
     (''angry'', [(''primary'', ''righteous_anger''), (''intensity'', ''high'')]),
     (''tired'', [(''comfort'', ''high''), (''intensity'', ''low'')]),
     (''curious'', [(''primary'', ''intellectual_stimulation'')]),
     (''romantic'', [(''primary'', ''romantic_warmth'')]),
     (''adventurous'', [(''primary'', ''awe_wonder''), (''intensity'', ''high'')]),
     (''reflective'', [(''primary'', ''bittersweet_hope''), (''intensity'', ''low'')])]"

definition DESIRED_FEELINGS :: "(string \<times> string list) list" where
  "DESIRED_FEELINGS =
    [(''feel-good'', [''pure_joy'', ''cozy_comfort'', ''romantic_warmth'']),
     (''thrilled'', [''thrilling_tension'', ''controlled_fear'', ''mind_blown'']),
     (''inspired'', [''triumphant_inspired'', ''awe_wonder'', ''bittersweet_hope'']),
     (''cry'', [''cathartic_sadness'', ''bittersweet_hope'']),
     (''laugh'', [''pure_joy'', ''cozy_comfort'']),
     (''think'', [''intellectual_stimulation'', ''mind_blown'']),
     (''scared'', [''controlled_fear'', ''thrilling_tension'']),
     (''romantic'', [''romantic_warmth'', ''bittersweet_hope'']),
     (''empowered'', [''triumphant_inspired'', ''righteous_anger'']),
     (''relaxed'', [''cozy_comfort'', ''pure_joy'']),
     (''amazed'', [''awe_wonder'', ''mind_blown''])]"

text \<open>A row of the catalog (\<open>movies_df\<close>), with the columns the engine reads.\<close>

record MovieRow =
  movie_title :: string
  movie_overview :: string
  movie_genres :: "string list"
  movie_poster_url :: string
  movie_emotions :: "string list"
  movie_intensity :: real
  movie_comfort :: real

record MovieRecommendation =
  rec_title :: string
  rec_overview :: string
  rec_genres :: "string list"
  rec_poster_url :: string
  rec_dominant_emotions :: "string list"
  rec_intensity_score :: real
  rec_comfort_score :: real
  match_score :: real
  explanation :: string

definition calculate_match_score :: "MovieRow \<Rightarrow> string dict \<Rightarrow> string list \<Rightarrow> real" where
  "calculate_match_score movie_row mood_params desired_emotions =
     (let score = 0;
          movie_emotions = movie_emotions movie_row;
          emotion_match =
            fold (\<lambda>emotion emotion_match.
                    if emotion \<in> set movie_emotions then emotion_match + 1 else emotion_match)
              desired_emotions (0::nat);
          emotion_score =
            (if desired_emotions \<noteq> []
             then real emotion_match / real (length desired_emotions) else 0);
          score = score + emotion_score * 0.4;
          movie_intensity = movie_intensity movie_row;
          desired_intensity = dict_get mood_params ''intensity'' ''medium'';
          intensity_score =
            (if desired_intensity = ''low'' then max 0 (1 - movie_intensity / 10)
             else if desired_intensity = ''high'' then movie_intensity / 10
             else 1 - \<bar>movie_intensity - 5\<bar> / 5);
          score = score + intensity_score * 0.3;
          movie_comfort = movie_comfort movie_row;
          desired_comfort = dict_get mood_params ''comfort'' ''medium'';
          comfort_score =
            (if desired_comfort = ''high'' then movie_comfort / 10
             else if desired_comfort = ''low'' then max 0 (1 - movie_comfort / 10)
             else 1 - \<bar>movie_comfort - 5\<bar> / 5);
          score = score + comfort_score * 0.3;
          score =
            (if (case map_of mood_params ''primary'' of
                   None \<Rightarrow> False
                 | Some primary \<Rightarrow> primary \<in> set movie_emotions)
             then score + 0.1 else score)
      in min 1.0 score)"

text \<open>\<open>sep.join(xs)\<close> and \<open>s.replace(a, b)\<close> for single characters.\<close>

fun join :: "string \<Rightarrow> string list \<Rightarrow> string" where
  "join sep [] = []"
| "join sep [x] = x"
| "join sep (x # y # ys) = x @ sep @ join sep (y # ys)"

definition replace_char :: "char \<Rightarrow> char \<Rightarrow> string \<Rightarrow> string" where
  "replace_char a b s = map (\<lambda>c. if c = a then b else c) s"

definition generate_explanation :: "MovieRow \<Rightarrow> string \<Rightarrow> string \<Rightarrow> string" where
  "generate_explanation movie_row current_mood desired_feeling =
     (let dominant = movie_emotions movie_row;
          emotions_text =
            join '', '' (map (replace_char (CHR ''_'') (CHR '' '')) (take 2 dominant))
      in if desired_feeling = ''feel-good''
         then ''A comforting choice with '' @ emotions_text @ '' to lift your spirits.''
         else if desired_feeling = ''thrilled''
         then ''An intense experience with '' @ emotions_text
                @ '' to get your heart racing.''
         else if desired_feeling = ''cry''
         then ''An emotional journey with '' @ emotions_text
                @ '' for a good cathartic release.''
         else if desired_feeling = ''inspired''
         then ''An uplifting film with '' @ emotions_text @ '' to inspire you.''
         else if desired_feeling = ''think''
         then ''A thought-provoking movie with '' @ emotions_text
                @ '' to engage your mind.''
         else ''Featuring '' @ emotions_text @ '' - a great match for your mood.'')"

text \<open>The two preset lookups at the head of \<open>recommend_by_mood\<close>.\<close>

definition resolve_mood :: "string \<Rightarrow> string dict" where
  "resolve_mood current_mood = dict_get MOOD_PRESETS (lower current_mood) []"

definition resolve_feeling :: "string \<Rightarrow> string list" where
  "resolve_feeling desired_feeling =
     (let desired_emotions = dict_get DESIRED_FEELINGS (lower desired_feeling) []
      in if desired_emotions = [] then [''pure_joy'', ''cozy_comfort'']
         else desired_emotions)"

text \<open>
  The scoring loop: one (index, score) pair per row, in catalog order. The catalog is
  the list of rows of \<open>movies_df\<close>, which carries the default index, so the label
  \<open>idx\<close> of a row is its position.
\<close>

definition mood_scores :: "MovieRow list \<Rightarrow> string dict \<Rightarrow> string list \<Rightarrow> (nat \<times> real) list" where
  "mood_scores movies_df mood_params desired_emotions =
     map (\<lambda>(idx, row). (idx, calculate_match_score row mood_params desired_emotions))
       (enumerate 0 movies_df)"

definition mood_recommendation ::
  "MovieRow list \<Rightarrow> string \<Rightarrow> string \<Rightarrow> nat \<times> real \<Rightarrow> MovieRecommendation" where
  "mood_recommendation movies_df current_mood desired_feeling item =
     (let row = movies_df ! fst item
      in \<lparr>rec_title = movie_title row,
          rec_overview = take 200 (movie_overview row) @ ''...'',
          rec_genres = movie_genres row,
          rec_poster_url = movie_poster_url row,
          rec_dominant_emotions = movie_emotions row,
          rec_intensity_score = movie_intensity row,
          rec_comfort_score = movie_comfort row,
          match_score = snd item,
          explanation = generate_explanation row current_mood desired_feeling\<rparr>)"

definition recommend_by_mood ::
  "MovieRow list \<Rightarrow> string \<Rightarrow> string \<Rightarrow> int \<Rightarrow> MovieRecommendation list" where
  "recommend_by_mood movies_df current_mood desired_feeling n_recommendations =
     (let mood_params = resolve_mood current_mood;
          desired_emotions = resolve_feeling desired_feeling;
          scores = mood_scores movies_df mood_params desired_emotions;
          scores = sorted_reverse snd scores
      in map (mood_recommendation movies_df current_mood desired_feeling)
           (slice_to scores n_recommendations))"

text \<open>\<open>str(int(x))\<close> for a non-negative \<open>x\<close>: the decimal digits of its integer part.\<close>

fun str_nat :: "nat \<Rightarrow> string" where
  "str_nat n =
     (if n < 10 then [''0123456789'' ! n]
      else str_nat (n div 10) @ [''0123456789'' ! (n mod 10)])"

declare str_nat.simps [simp del]

definition emotion_fraction :: "string list \<Rightarrow> string list \<Rightarrow> real" where
  "emotion_fraction target_emotions dominant =
     (let match_count = length (filter (\<lambda>e. e \<in> set dominant) target_emotions)
      in if target_emotions \<noteq> [] then real match_count / real (length target_emotions)
         else 0)"

definition in_bounds :: "real \<Rightarrow> real \<Rightarrow> real \<Rightarrow> MovieRow \<Rightarrow> bool" where
  "in_bounds min_intensity max_intensity min_comfort row =
     (movie_intensity row \<ge> min_intensity \<and> movie_intensity row \<le> max_intensity
      \<and> movie_comfort row \<ge> min_comfort)"

definition emotion_scores_of ::
  "MovieRow list \<Rightarrow> string list \<Rightarrow> real \<Rightarrow> real \<Rightarrow> real \<Rightarrow> (nat \<times> real) list" where
  "emotion_scores_of movies_df target_emotions min_intensity max_intensity min_comfort =
     (let df = filter (\<lambda>(idx, row). in_bounds min_intensity max_intensity min_comfort row)
                 (enumerate 0 movies_df)
      in map (\<lambda>(idx, row). (idx, emotion_fraction target_emotions (movie_emotions row))) df)"

definition emotion_recommendation :: "MovieRow list \<Rightarrow> nat \<times> real \<Rightarrow> MovieRecommendation" where
  "emotion_recommendation movies_df item =
     (let row = movies_df ! fst item
      in \<lparr>rec_title = movie_title row,
          rec_overview = take 200 (movie_overview row) @ ''...'',
          rec_genres = movie_genres row,
          rec_poster_url = movie_poster_url row,
          rec_dominant_emotions = movie_emotions row,
          rec_intensity_score = movie_intensity row,
          rec_comfort_score = movie_comfort row,
          match_score = snd item,
          explanation =
            ''Matches '' @ str_nat (nat \<lfloor>snd item * 100\<rfloor>)
              @ ''% of your desired emotions.''\<rparr>)"

definition recommend_by_emotions ::
  "MovieRow list \<Rightarrow> string list \<Rightarrow> real \<Rightarrow> real \<Rightarrow> real \<Rightarrow> int \<Rightarrow> MovieRecommendation list" where
  "recommend_by_emotions movies_df target_emotions min_intensity max_intensity min_comfort
       n_recommendations =
     (let scores = emotion_scores_of movies_df target_emotions min_intensity max_intensity
                     min_comfort;
          scores = sorted_reverse snd scores
      in map (emotion_recommendation movies_df) (slice_to scores n_recommendations))"

definition get_mood_journey ::
  "MovieRow list \<Rightarrow> string \<Rightarrow> string \<Rightarrow> int \<Rightarrow> MovieRecommendation list" where
  "get_mood_journey movies_df start_mood end_mood n_movies =
     (let journey = [];
          first_recs = recommend_by_mood movies_df start_mood start_mood 1;
          journey = (case first_recs of [] \<Rightarrow> journey | r # _ \<Rightarrow> journey @ [r]);
          journey =
            (if n_movies \<ge> 3
             then journey @ recommend_by_mood movies_df start_mood end_mood (n_movies - 2)
             else journey);
          final_recs = recommend_by_mood movies_df ''neutral'' end_mood 1;
          journey = (case final_recs of [] \<Rightarrow> journey | r # _ \<Rightarrow> journey @ [r])
      in slice_to journey n_movies)"

text \<open>
  The scoring formula in the words of the specification: the band match for a preference
  that is \<open>low\<close>, \<open>high\<close>, or anything else (\<open>medium\<close> or absent).
\<close>

definition band_match :: "string option \<Rightarrow> real \<Rightarrow> real" where
  "band_match preference x =
     (if preference = Some ''low'' then max 0 (1 - x / 10)
      else if preference = Some ''high'' then x / 10
      else 1 - \<bar>x - 5\<bar> / 5)"

definition primary_bonus :: "string option \<Rightarrow> string list \<Rightarrow> real" where
  "primary_bonus primary dominant =
     (case primary of
        None \<Rightarrow> 0
      | Some c \<Rightarrow> if c \<in> set dominant then 0.1 else 0)"

definition spec_match_score :: "MovieRow \<Rightarrow> string dict \<Rightarrow> string list \<Rightarrow> real" where
  "spec_match_score row mood_params targets =
     min 1 (0.4 * emotion_fraction targets (movie_emotions row)
            + 0.3 * band_match (map_of mood_params ''intensity'') (movie_intensity row)
            + 0.3 * band_match (map_of mood_params ''comfort'') (movie_comfort row)
            + primary_bonus (map_of mood_params ''primary'') (movie_emotions row))"

text \<open>
  The ranking order on items with a score \<open>f\<close> and an original position \<open>g\<close>:
  descending score, equal scores in ascending original position.
\<close>

definition ordered_before :: "('a \<Rightarrow> real) \<Rightarrow> ('a \<Rightarrow> nat) \<Rightarrow> 'a \<Rightarrow> 'a \<Rightarrow> bool" where
  "ordered_before f g a b = (f a > f b \<or> (f a = f b \<and> g a < g b))"

definition ranks_before :: "nat \<times> real \<Rightarrow> nat \<times> real \<Rightarrow> bool" where
  "ranks_before = ordered_before snd fst"

text \<open>The sorted \<open>scores\<close> list of \<open>recommend_by_mood\<close> and of \<open>recommend_by_emotions\<close>.\<close>

definition mood_ranking :: "MovieRow list \<Rightarrow> string \<Rightarrow> string \<Rightarrow> (nat \<times> real) list" where
  "mood_ranking movies_df current_mood desired_feeling =
     sorted_reverse snd
       (mood_scores movies_df (resolve_mood current_mood) (resolve_feeling desired_feeling))"

definition emotion_ranking ::
  "MovieRow list \<Rightarrow> string list \<Rightarrow> real \<Rightarrow> real \<Rightarrow> real \<Rightarrow> (nat \<times> real) list" where
  "emotion_ranking movies_df target_emotions min_intensity max_intensity min_comfort =
     sorted_reverse snd
       (emotion_scores_of movies_df target_emotions min_intensity max_intensity min_comfort)"

section \<open>A sample catalog\<close>

text \<open>Three rows used to run the engine on concrete input; the last two score alike.\<close>

definition dark_row :: MovieRow where
  "dark_row =
     \<lparr>movie_title = ''The Dark Knight'', movie_overview = ''Batman raises the stakes.'',
      movie_genres = [''Action'', ''Crime''], movie_poster_url = [],
      movie_emotions = [''thrilling_tension'', ''righteous_anger'', ''cathartic_sadness''],
      movie_intensity = 8, movie_comfort = 2\<rparr>"

definition cozy_row :: MovieRow where
  "cozy_row =
     \<lparr>movie_title = ''Paddington'', movie_overview = ''A young bear travels to London.'',
      movie_genres = [''Family'', ''Comedy''], movie_poster_url = [],
      movie_emotions = [''cozy_comfort'', ''pure_joy'', ''awe_wonder''],
      movie_intensity = 3, movie_comfort = 8\<rparr>"

definition twin_row :: MovieRow where
  "twin_row =
     \<lparr>movie_title = ''Paddington 2'', movie_overview = ''The bear picks up odd jobs.'',
      movie_genres = [''Family'', ''Comedy''], movie_poster_url = [],
      movie_emotions = [''pure_joy'', ''cozy_comfort'', ''bittersweet_hope''],
      movie_intensity = 3, movie_comfort = 8\<rparr>"

definition sample_catalog :: "MovieRow list" where
  "sample_catalog = [dark_row, cozy_row, twin_row]"

section \<open>Dictionary lemmas\<close>

lemma map_of_update_alist:
  "map_of (AList.update k v d) k' = (if k' = k then Some v else map_of d k')"
  by (simp add: update_conv)

section \<open>The Classifier-Output Mapper\<close>







section \<open>The Genre Heuristic Model\<close>

lemma emotion_step_lookup:
  "map_of (emotion_step item acc) c =
     (if fst item = c
      then (case map_of acc c of
              None \<Rightarrow> Some (snd item)
            | Some a \<Rightarrow> Some ((a + snd item) / 2))
      else map_of acc c)"
  by (auto simp: emotion_step_def map_of_update_alist split: option.splits)

lemma fold_emotion_step_lookup:
  "distinct (map fst d) \<Longrightarrow>
   map_of (fold emotion_step d acc) c =
     (case map_of d c of
        None \<Rightarrow> map_of acc c
      | Some v \<Rightarrow> (case map_of acc c of None \<Rightarrow> Some v | Some a \<Rightarrow> Some ((a + v) / 2)))"
proof (induction d arbitrary: acc)
  case Nil
  then show ?case by simp
next
  case (Cons item d)
  then have notin: "fst item \<notin> fst ` set d" and dist: "distinct (map fst d)" by auto
  from notin have none: "map_of d (fst item) = None" by (simp add: map_of_eq_None_iff)
  show ?case
  proof (cases "fst item = c")
    case True
    with none show ?thesis
      by (cases item) (simp add: Cons.IH [OF dist] emotion_step_lookup split: option.splits)
  next
    case False
    then show ?thesis
      by (cases item) (simp add: Cons.IH [OF dist] emotion_step_lookup split: option.splits)
  qed
qed

lemma genre_table_distinct:
  assumes "map_of GENRE_EMOTION_MAP g = Some d"
  shows "distinct (map fst d)"
proof -
  have "\<forall>p \<in> set GENRE_EMOTION_MAP. distinct (map fst (snd p))"
    by (simp add: GENRE_EMOTION_MAP_def)
  moreover from assms have "(g, d) \<in> set GENRE_EMOTION_MAP" by (rule map_of_SomeD)
  ultimately show ?thesis by fastforce
qed

lemma genre_step_lookup:
  "map_of (genre_step g acc) c =
     (case genre_value g c of
        None \<Rightarrow> map_of acc c
      | Some v \<Rightarrow> (case map_of acc c of None \<Rightarrow> Some v | Some a \<Rightarrow> Some ((a + v) / 2)))"
  by (simp add: genre_step_def genre_value_def fold_emotion_step_lookup genre_table_distinct
        split: option.splits)

lemma fold_genre_step_lookup:
  "map_of (fold genre_step gs acc) c =
     (case map_of acc c of
        None \<Rightarrow> running_average (contributions gs c)
      | Some a \<Rightarrow> Some (foldl (\<lambda>acc s. (acc + s) / 2) a (contributions gs c)))"
proof (induction gs arbitrary: acc)
  case Nil
  then show ?case
    by (simp add: contributions_def running_average_def split: option.splits)
next
  case (Cons g gs)
  show ?case
    by (simp add: Cons.IH genre_step_lookup contributions_def running_average_def
          split: option.splits)
qed

text \<open>
  Claim C4. For every genre list and every category, the score that
  \<open>get_genre_emotions\<close> gives the category is the running average of the values the
  known genres contribute to it, taken in input order: the first contributing value
  as it is, each later value \<open>s\<close> replacing the estimate \<open>acc\<close> by \<open>(acc + s) / 2\<close>; a
  category no known genre contributes to has no entry.
\<close>

theorem get_genre_emotions_running_average:
  "map_of (get_genre_emotions genres) c = running_average (contributions genres c)"
  by (simp add: get_genre_emotions_def fold_genre_step_lookup contributions_def
        running_average_def)

text \<open>
  Action, Adventure and Thriller give \<open>thrilling_tension\<close> the values 0.8, 0.6 and 0.9:
  the result 0.8 is \<open>((0.8 + 0.6) / 2 + 0.9) / 2\<close>, neither the maximum 0.9, nor the sum
  2.3, nor the arithmetic mean.
\<close>

theorem get_genre_emotions_running_average_witness:
  "contributions [''Action'', '' adventure '', ''Unheard'', ''Thriller''] ''thrilling_tension''
     = [0.8, 0.6, 0.9]
   \<and> map_of (get_genre_emotions [''Action'', '' adventure '', ''Unheard'', ''Thriller''])
       ''thrilling_tension'' = Some 0.8"
proof -
  have c: "contributions [''Action'', '' adventure '', ''Unheard'', ''Thriller'']
             ''thrilling_tension'' = [0.8, 0.6, 0.9]"
    by (simp add: contributions_def genre_value_def GENRE_EMOTION_MAP_def lower_def
          lower_char_def strip_def is_space_def)
  show ?thesis
    using get_genre_emotions_running_average
            [of "[''Action'', '' adventure '', ''Unheard'', ''Thriller'']"
                "''thrilling_tension''"]
    by (simp add: c running_average_def)
qed

section \<open>Stable descending sort\<close>

lemma insort_ordered_before:
  "sorted_wrt (ordered_before f g) ys \<Longrightarrow> \<forall>y \<in> set ys. g x < g y \<Longrightarrow>
   sorted_wrt (ordered_before f g) (insort_key (\<lambda>x. - f x) x ys)"
proof (induction ys)
  case Nil
  then show ?case by simp
next
  case (Cons y ys)
  show ?case
  proof (cases "f y \<le> f x")
    case True
    have "\<forall>z \<in> set (y # ys). ordered_before f g x z"
    proof
      fix z assume z: "z \<in> set (y # ys)"
      then have "f z \<le> f y" using Cons.prems(1) by (auto simp: ordered_before_def)
      moreover have "g x < g z" using Cons.prems(2) z by blast
      ultimately show "ordered_before f g x z" using True by (auto simp: ordered_before_def)
    qed
    with True Cons.prems(1) show ?thesis by simp
  next
    case False
    then have "ordered_before f g y x" by (simp add: ordered_before_def)
    with False Cons show ?thesis by (auto simp: set_insort_key)
  qed
qed

lemma sorted_reverse_ordered:
  "sorted_wrt (\<lambda>a b. g a < g b) xs \<Longrightarrow> sorted_wrt (ordered_before f g) (sorted_reverse f xs)"
proof (induction xs)
  case Nil
  then show ?case by (simp add: sorted_reverse_def)
next
  case (Cons x xs)
  then have "sorted_wrt (ordered_before f g) (sort_key (\<lambda>x. - f x) xs)"
    by (simp add: sorted_reverse_def)
  moreover have "\<forall>y \<in> set (sort_key (\<lambda>x. - f x) xs). g x < g y"
    using Cons.prems by simp
  ultimately show ?case
    by (simp add: sorted_reverse_def insort_ordered_before)
qed

lemma mset_sorted_reverse: "mset (sorted_reverse f xs) = mset xs"
  by (simp add: sorted_reverse_def)

lemma set_sorted_reverse: "set (sorted_reverse f xs) = set xs"
  by (simp add: sorted_reverse_def)

lemma length_sorted_reverse: "length (sorted_reverse f xs) = length xs"
  by (simp add: sorted_reverse_def)

lemma sorted_reverse_constant:
  "\<forall>x \<in> set xs. f x = c \<Longrightarrow> sorted_reverse f xs = xs"
proof (induction xs)
  case Nil
  then show ?case by (simp add: sorted_reverse_def)
next
  case (Cons x xs)
  then have "sort_key (\<lambda>x. - f x) xs = xs" by (simp add: sorted_reverse_def)
  with Cons.prems show ?case by (cases xs) (simp_all add: sorted_reverse_def)
qed

text \<open>The order leaves no freedom: two lists of the same items in this order are equal.\<close>

lemma ordered_before_unique:
  "sorted_wrt (ordered_before f g) xs \<Longrightarrow> sorted_wrt (ordered_before f g) ys \<Longrightarrow>
   mset xs = mset ys \<Longrightarrow> xs = ys"
proof (induction xs arbitrary: ys)
  case Nil
  then show ?case by simp
next
  case (Cons x xs)
  then obtain y ys' where ys: "ys = y # ys'" by (cases ys) auto
  have "x = y"
  proof (rule ccontr)
    assume ne: "x \<noteq> y"
    have "x \<in> set ys" using Cons.prems(3) by (metis list.set_intros(1) mset_eq_setD)
    with ne ys have "x \<in> set ys'" by simp
    then have 1: "ordered_before f g y x" using Cons.prems(2) ys by simp
    have "y \<in> set (x # xs)" using Cons.prems(3) ys by (metis list.set_intros(1) mset_eq_setD)
    with ne have "y \<in> set xs" by simp
    then have 2: "ordered_before f g x y" using Cons.prems(1) by simp
    from 1 2 show False by (auto simp: ordered_before_def)
  qed
  moreover have "xs = ys'"
    using Cons.IH [of ys'] Cons.prems ys \<open>x = y\<close> by simp
  ultimately show ?case using ys by simp
qed

lemma sorted_wrt_positions:
  "map g xs = [0..<n] \<Longrightarrow> sorted_wrt (\<lambda>a b. g a < g b) xs"
proof -
  assume "map g xs = [0..<n]"
  moreover have "sorted_wrt (<) [0..<n]" by simp
  ultimately have "sorted_wrt (<) (map g xs)" by simp
  then show ?thesis by (simp add: sorted_wrt_map)
qed

lemma slice_to_nonneg: "0 \<le> n \<Longrightarrow> slice_to xs n = take (nat n) xs"
  by (simp add: slice_to_def)

section \<open>The match score\<close>

lemma count_fold:
  "fold (\<lambda>e m. if P e then m + 1 else m) xs (k::nat) = k + length (filter P xs)"
  by (induction xs arbitrary: k) auto

lemma emotion_score_fraction:
  "(if desired \<noteq> []
    then real (fold (\<lambda>emotion emotion_match.
                    if emotion \<in> set dominant then emotion_match + 1 else emotion_match)
                 desired (0::nat)) / real (length desired)
    else 0) = emotion_fraction desired dominant"
  by (simp add: count_fold emotion_fraction_def)

lemma intensity_band:
  "(if dict_get mp k ''medium'' = ''low'' then max 0 (1 - x / 10)
    else if dict_get mp k ''medium'' = ''high'' then x / 10
    else 1 - \<bar>x - 5\<bar> / 5) = band_match (map_of mp k) x"
  by (auto simp: dict_get_def band_match_def split: option.splits)

lemma comfort_band:
  "(if dict_get mp k ''medium'' = ''high'' then x / 10
    else if dict_get mp k ''medium'' = ''low'' then max 0 (1 - x / 10)
    else 1 - \<bar>x - 5\<bar> / 5) = band_match (map_of mp k) x"
  by (auto simp: dict_get_def band_match_def split: option.splits)

lemma primary_bonus_add:
  "(if (case primary of None \<Rightarrow> False | Some c \<Rightarrow> c \<in> set dominant)
    then score + 0.1 else score) = score + primary_bonus primary dominant"
  by (simp add: primary_bonus_def split: option.splits)

lemma calculate_match_score_spec:
  "calculate_match_score row mood_params desired_emotions
     = spec_match_score row mood_params desired_emotions"
  by (simp only: calculate_match_score_def spec_match_score_def Let_def
        emotion_score_fraction intensity_band comfort_band primary_bonus_add)

lemma resolve_stressed:
  "resolve_mood ''Stressed'' = [(''intensity'', ''low''), (''comfort'', ''high'')]"
  by (simp add: resolve_mood_def MOOD_PRESETS_def dict_get_def lower_def lower_char_def)

lemma resolve_happy:
  "resolve_mood ''happy'' = [(''primary'', ''pure_joy''), (''comfort'', ''high'')]"
  by (simp add: resolve_mood_def MOOD_PRESETS_def dict_get_def lower_def lower_char_def)

lemma resolve_feel_good:
  "resolve_feeling ''feel-good'' = [''pure_joy'', ''cozy_comfort'', ''romantic_warmth'']"
  by (simp add: resolve_feeling_def DESIRED_FEELINGS_def dict_get_def lower_def
        lower_char_def)

lemma resolve_laugh:
  "resolve_feeling ''laugh'' = [''pure_joy'', ''cozy_comfort'']"
  by (simp add: resolve_feeling_def DESIRED_FEELINGS_def dict_get_def lower_def
        lower_char_def)

text \<open>
  Claim C1. For every catalog row, mood preset and target list, the match score computed
  by \<open>_calculate_match_score\<close> is 0.4 times the fraction of target categories present in
  the row's dominant emotions, plus 0.3 times the intensity match, plus 0.3 times the
  comfort match, plus 0.1 when the preset's primary category is among the row's dominant
  emotions, capped at 1; the band match being \<open>max(0, 1 - x/10)\<close> for \<open>low\<close>, \<open>x/10\<close> for
  \<open>high\<close> and \<open>1 - |x - 5|/5\<close> otherwise. The scoring loop of \<open>recommend_by_mood\<close> gives
  each row of the catalog this score for the resolved presets.
\<close>

theorem calculate_match_score_formula:
  "calculate_match_score row mood_params desired_emotions =
     min 1 (0.4 * emotion_fraction desired_emotions (movie_emotions row)
            + 0.3 * band_match (map_of mood_params ''intensity'') (movie_intensity row)
            + 0.3 * band_match (map_of mood_params ''comfort'') (movie_comfort row)
            + primary_bonus (map_of mood_params ''primary'') (movie_emotions row))
   \<and> mood_scores movies_df (resolve_mood current_mood) (resolve_feeling desired_feeling) =
       map (\<lambda>(idx, row).
              (idx, spec_match_score row (resolve_mood current_mood)
                      (resolve_feeling desired_feeling)))
         (enumerate 0 movies_df)"
  by (simp add: mood_scores_def calculate_match_score_spec)
     (simp add: spec_match_score_def)

theorem calculate_match_score_formula_witness:
  "calculate_match_score cozy_row (resolve_mood ''Stressed'') (resolve_feeling ''feel-good'')
     = 43 / 60
   \<and> calculate_match_score cozy_row (resolve_mood ''happy'') (resolve_feeling ''laugh'')
     = 23 / 25"
  using calculate_match_score_formula
          [THEN conjunct1, of cozy_row "resolve_mood ''Stressed''"
             "resolve_feeling ''feel-good''"]
        calculate_match_score_formula
          [THEN conjunct1, of cozy_row "resolve_mood ''happy''" "resolve_feeling ''laugh''"]
  by (simp add: resolve_stressed resolve_happy resolve_feel_good resolve_laugh cozy_row_def
        emotion_fraction_def band_match_def primary_bonus_def)

section \<open>Ranking by mood\<close>

lemma mood_scores_positions:
  "map fst (mood_scores movies_df mp de) = [0..<length movies_df]"
proof -
  have "map fst (mood_scores movies_df mp de) = map fst (enumerate 0 movies_df)"
    by (simp add: mood_scores_def split_def comp_def)
  then show ?thesis by simp
qed

lemma length_mood_scores: "length (mood_scores movies_df mp de) = length movies_df"
  by (simp add: mood_scores_def)

lemma recommend_by_mood_take:
  "0 \<le> n \<Longrightarrow> recommend_by_mood movies_df current_mood desired_feeling n
           = map (mood_recommendation movies_df current_mood desired_feeling)
               (take (nat n) (mood_ranking movies_df current_mood desired_feeling))"
  by (simp add: recommend_by_mood_def mood_ranking_def slice_to_nonneg)

lemma length_mood_ranking:
  "length (mood_ranking movies_df current_mood desired_feeling) = length movies_df"
  by (simp add: mood_ranking_def length_sorted_reverse length_mood_scores)

lemma length_recommend_by_mood:
  "0 \<le> n \<Longrightarrow> length (recommend_by_mood movies_df current_mood desired_feeling n)
           = min (nat n) (length movies_df)"
  by (simp add: recommend_by_mood_take length_mood_ranking min.commute)

lemma sorted_mood_ranking:
  "sorted_wrt ranks_before (mood_ranking movies_df current_mood desired_feeling)"
  unfolding mood_ranking_def ranks_before_def
  by (rule sorted_reverse_ordered, rule sorted_wrt_positions, rule mood_scores_positions)

lemma sample_mood_scores:
  "mood_scores sample_catalog (resolve_mood ''Stressed'') (resolve_feeling ''feel-good'')
     = [(0, 3 / 25), (1, 43 / 60), (2, 43 / 60)]"
  by (simp add: resolve_stressed resolve_feel_good mood_scores_def sample_catalog_def
        dark_row_def cozy_row_def twin_row_def calculate_match_score_def dict_get_def Let_def)

lemma sample_mood_ranking:
  "mood_ranking sample_catalog ''Stressed'' ''feel-good''
     = [(1, 43 / 60), (2, 43 / 60), (0, 3 / 25)]"
  by (simp add: mood_ranking_def sample_mood_scores sorted_reverse_def)

text \<open>
  Claim C3. For a fixed catalog and mood query, \<open>recommend_by_mood\<close> with \<open>n \<ge> 0\<close> returns
  the recommendations of the first \<open>n\<close> entries of the ranking. The ranking holds every
  (position, score) pair of the catalog exactly once, in descending score with equal scores
  in ascending catalog position, and it is the only list of these pairs in that order.
  The result has \<open>min n (catalog size)\<close> entries, so an \<open>n\<close> beyond the catalog size returns
  every item.
\<close>

theorem recommend_by_mood_order:
  assumes "0 \<le> n"
  shows "recommend_by_mood movies_df current_mood desired_feeling n
           = map (mood_recommendation movies_df current_mood desired_feeling)
               (take (nat n) (mood_ranking movies_df current_mood desired_feeling))
    \<and> mset (mood_ranking movies_df current_mood desired_feeling)
           = mset (mood_scores movies_df (resolve_mood current_mood)
                     (resolve_feeling desired_feeling))
    \<and> sorted_wrt ranks_before (mood_ranking movies_df current_mood desired_feeling)
    \<and> (\<forall>ys. mset ys = mset (mood_ranking movies_df current_mood desired_feeling)
              \<and> sorted_wrt ranks_before ys
           \<longrightarrow> ys = mood_ranking movies_df current_mood desired_feeling)
    \<and> length (recommend_by_mood movies_df current_mood desired_feeling n)
           = min (nat n) (length movies_df)"
proof -
  let ?ranked = "mood_ranking movies_df current_mood desired_feeling"
  have "\<forall>ys. mset ys = mset ?ranked \<and> sorted_wrt ranks_before ys \<longrightarrow> ys = ?ranked"
    using sorted_mood_ranking ordered_before_unique unfolding ranks_before_def by blast
  moreover have "mset ?ranked = mset (mood_scores movies_df (resolve_mood current_mood)
                     (resolve_feeling desired_feeling))"
    by (simp add: mood_ranking_def mset_sorted_reverse)
  ultimately show ?thesis
    using assms recommend_by_mood_take length_recommend_by_mood sorted_mood_ranking
    by blast
qed

text \<open>
  On the sample catalog the two rows that tie keep their catalog order ahead of the
  low-scoring first row, and asking for 5 of 3 rows returns all 3.
\<close>

theorem recommend_by_mood_order_witness:
  "(0::int) \<le> 5
   \<and> map match_score (recommend_by_mood sample_catalog ''Stressed'' ''feel-good'' 5)
       = [43 / 60, 43 / 60, 3 / 25]
   \<and> map rec_title (recommend_by_mood sample_catalog ''Stressed'' ''feel-good'' 5)
       = [''Paddington'', ''Paddington 2'', ''The Dark Knight'']
   \<and> length (recommend_by_mood sample_catalog ''Stressed'' ''feel-good'' 5) = 3"
proof -
  have "recommend_by_mood sample_catalog ''Stressed'' ''feel-good'' 5
          = map (mood_recommendation sample_catalog ''Stressed'' ''feel-good'')
              [(1, 43 / 60), (2, 43 / 60), (0, 3 / 25)]"
    using recommend_by_mood_order [of 5 sample_catalog "''Stressed''" "''feel-good''"]
    by (simp add: sample_mood_ranking)
  then show ?thesis
    by (simp add: mood_recommendation_def sample_catalog_def dark_row_def cozy_row_def
          twin_row_def)
qed

section \<open>Ranking by explicit emotions\<close>

lemma emotion_scores_positions:
  "sorted_wrt (\<lambda>a b. fst a < fst b) (emotion_scores_of movies_df te lo hi mc)"
proof -
  have "sorted_wrt (\<lambda>a b. fst a < fst b) (enumerate 0 movies_df)"
    by (rule sorted_wrt_positions [where n = "length movies_df"]) simp
  then have "sorted_wrt (\<lambda>a b. fst a < fst b)
      (filter (\<lambda>(idx, row). in_bounds lo hi mc row) (enumerate 0 movies_df))"
    by (rule sorted_wrt_filter)
  then show ?thesis
    by (simp add: emotion_scores_of_def sorted_wrt_map split_def)
qed

lemma set_emotion_scores_of:
  "set (emotion_scores_of movies_df te lo hi mc) =
     {(idx, emotion_fraction te (movie_emotions (movies_df ! idx))) | idx.
        idx < length movies_df \<and> in_bounds lo hi mc (movies_df ! idx)}"
  by (auto simp: emotion_scores_of_def in_set_enumerate_eq image_iff split_def)

lemma emotion_fraction_empty: "emotion_fraction [] dominant = 0"
  by (simp add: emotion_fraction_def)

lemma recommend_by_emotions_take:
  "0 \<le> n \<Longrightarrow> recommend_by_emotions movies_df te lo hi mc n
           = map (emotion_recommendation movies_df)
               (take (nat n) (emotion_ranking movies_df te lo hi mc))"
  by (simp add: recommend_by_emotions_def emotion_ranking_def slice_to_nonneg)

lemma emotion_ranking_empty_targets:
  "emotion_ranking movies_df [] lo hi mc =
     map (\<lambda>(idx, row). (idx, 0))
       (filter (\<lambda>(idx, row). in_bounds lo hi mc row) (enumerate 0 movies_df))"
proof -
  have "\<forall>x \<in> set (emotion_scores_of movies_df [] lo hi mc). snd x = 0"
    by (auto simp: emotion_scores_of_def emotion_fraction_empty)
  then have "emotion_ranking movies_df [] lo hi mc = emotion_scores_of movies_df [] lo hi mc"
    unfolding emotion_ranking_def by (rule sorted_reverse_constant)
  then show ?thesis by (simp add: emotion_scores_of_def emotion_fraction_empty)
qed

lemma match_score_emotion_recommendation:
  "match_score (emotion_recommendation movies_df item) = snd item"
  by (simp add: emotion_recommendation_def Let_def)

lemma sample_emotion_scores:
  "emotion_scores_of sample_catalog [''awe_wonder'', ''pure_joy''] 0 10 5
     = [(1, 1), (2, 1 / 2)]"
  by (simp add: emotion_scores_of_def sample_catalog_def dark_row_def cozy_row_def
        twin_row_def in_bounds_def emotion_fraction_def)

lemma sample_emotion_ranking:
  "emotion_ranking sample_catalog [''awe_wonder'', ''pure_joy''] 0 10 5
     = [(1, 1), (2, 1 / 2)]"
  by (simp add: emotion_ranking_def sample_emotion_scores sorted_reverse_def)

text \<open>
  Claim C8. \<open>recommend_by_emotions\<close> with \<open>n \<ge> 0\<close> returns the recommendations of the first
  \<open>n\<close> entries of its ranking. The ranking holds exactly the catalog positions whose row has
  its intensity within \<open>[min_intensity, max_intensity]\<close> and its comfort at least
  \<open>min_comfort\<close>, each with the fraction of target categories present in the row's dominant
  emotions as its score (no intensity or comfort weighting), in descending score with equal
  scores in ascending catalog position. With no target category every surviving row scores
  0 and the ranking is the filtered catalog in catalog order.
\<close>

theorem recommend_by_emotions_order:
  assumes "0 \<le> n"
  shows "recommend_by_emotions movies_df target_emotions min_intensity max_intensity
             min_comfort n
           = map (emotion_recommendation movies_df)
               (take (nat n) (emotion_ranking movies_df target_emotions min_intensity
                  max_intensity min_comfort))
    \<and> set (emotion_ranking movies_df target_emotions min_intensity max_intensity min_comfort)
        = {(idx, emotion_fraction target_emotions (movie_emotions (movies_df ! idx))) | idx.
             idx < length movies_df
             \<and> min_intensity \<le> movie_intensity (movies_df ! idx)
             \<and> movie_intensity (movies_df ! idx) \<le> max_intensity
             \<and> min_comfort \<le> movie_comfort (movies_df ! idx)}
    \<and> sorted_wrt ranks_before
          (emotion_ranking movies_df target_emotions min_intensity max_intensity min_comfort)
    \<and> emotion_ranking movies_df [] min_intensity max_intensity min_comfort
        = map (\<lambda>(idx, row). (idx, 0))
            (filter (\<lambda>(idx, row). in_bounds min_intensity max_intensity min_comfort row)
               (enumerate 0 movies_df))"
proof (intro conjI)
  show "recommend_by_emotions movies_df target_emotions min_intensity max_intensity
             min_comfort n
           = map (emotion_recommendation movies_df)
               (take (nat n) (emotion_ranking movies_df target_emotions min_intensity
                  max_intensity min_comfort))"
    using assms by (rule recommend_by_emotions_take)
  show "set (emotion_ranking movies_df target_emotions min_intensity max_intensity
               min_comfort)
        = {(idx, emotion_fraction target_emotions (movie_emotions (movies_df ! idx))) | idx.
             idx < length movies_df
             \<and> min_intensity \<le> movie_intensity (movies_df ! idx)
             \<and> movie_intensity (movies_df ! idx) \<le> max_intensity
             \<and> min_comfort \<le> movie_comfort (movies_df ! idx)}"
    by (simp add: emotion_ranking_def set_sorted_reverse set_emotion_scores_of in_bounds_def)
  show "sorted_wrt ranks_before
          (emotion_ranking movies_df target_emotions min_intensity max_intensity min_comfort)"
    unfolding emotion_ranking_def ranks_before_def
    by (rule sorted_reverse_ordered, rule emotion_scores_positions)
  show "emotion_ranking movies_df [] min_intensity max_intensity min_comfort
        = map (\<lambda>(idx, row). (idx, 0))
            (filter (\<lambda>(idx, row). in_bounds min_intensity max_intensity min_comfort row)
               (enumerate 0 movies_df))"
    by (rule emotion_ranking_empty_targets)
qed

text \<open>
  On the sample catalog with \<open>min_comfort = 5\<close> the first row is filtered out; the other
  two match both and one of the two targets. With no target they come in catalog order.
\<close>

theorem recommend_by_emotions_order_witness:
  "(0::int) \<le> 5
   \<and> map match_score
        (recommend_by_emotions sample_catalog [''awe_wonder'', ''pure_joy''] 0 10 5 5)
       = [1, 1 / 2]
   \<and> emotion_ranking sample_catalog [] 0 10 5 = [(1, 0), (2, 0)]"
proof -
  have n: "(0::int) \<le> 5" by simp
  note order = recommend_by_emotions_order
                 [OF n, of sample_catalog "[''awe_wonder'', ''pure_joy'']" 0 10 5]
  have "recommend_by_emotions sample_catalog [''awe_wonder'', ''pure_joy''] 0 10 5 5
          = map (emotion_recommendation sample_catalog) [(1, 1), (2, 1 / 2)]"
    using order [THEN conjunct1] by (simp add: sample_emotion_ranking)
  then have "map match_score
        (recommend_by_emotions sample_catalog [''awe_wonder'', ''pure_joy''] 0 10 5 5)
       = [1, 1 / 2]"
    by (simp add: match_score_emotion_recommendation)
  moreover have "emotion_ranking sample_catalog [] 0 10 5 = [(1, 0), (2, 0)]"
    using order [THEN conjunct2, THEN conjunct2, THEN conjunct2]
    by (simp add: sample_catalog_def dark_row_def cozy_row_def twin_row_def in_bounds_def)
  ultimately show ?thesis by simp
qed

section \<open>The journey planner\<close>

lemma case_singleton:
  "length xs = 1 \<Longrightarrow> (case xs of [] \<Rightarrow> j | r # _ \<Rightarrow> j @ [r]) = j @ xs"
  by (cases xs) auto

lemma length_recommend_one:
  "movies_df \<noteq> [] \<Longrightarrow> length (recommend_by_mood movies_df a b 1) = 1"
  by (cases movies_df) (simp_all add: length_recommend_by_mood)

lemma get_mood_journey_take:
  assumes "movies_df \<noteq> []" and "1 \<le> n_movies"
  shows "get_mood_journey movies_df start_mood end_mood n_movies =
     take (nat n_movies)
       (recommend_by_mood movies_df start_mood start_mood 1
        @ (if 3 \<le> n_movies
           then recommend_by_mood movies_df start_mood end_mood (n_movies - 2) else [])
        @ recommend_by_mood movies_df ''neutral'' end_mood 1)"
  using assms
  by (simp add: get_mood_journey_def Let_def case_singleton length_recommend_one
        slice_to_nonneg)

lemma length_get_mood_journey:
  assumes "movies_df \<noteq> []" and "1 \<le> n_movies"
  shows "length (get_mood_journey movies_df start_mood end_mood n_movies) =
     min (nat n_movies)
       (2 + (if 3 \<le> n_movies then min (nat (n_movies - 2)) (length movies_df) else 0))"
proof -
  let ?mid = "if 3 \<le> n_movies
              then recommend_by_mood movies_df start_mood end_mood (n_movies - 2) else []"
  have mid: "length ?mid =
               (if 3 \<le> n_movies then min (nat (n_movies - 2)) (length movies_df) else 0)"
    by (simp add: length_recommend_by_mood)
  have "length (get_mood_journey movies_df start_mood end_mood n_movies) =
          min (nat n_movies) (1 + length ?mid + 1)"
    by (simp only: get_mood_journey_take [OF assms] length_take length_append
          length_recommend_one [OF assms(1)] min.commute add.assoc)
  with mid show ?thesis by simp
qed

text \<open>
  Claim C6, amended. For every non-empty catalog and every \<open>n_movies \<ge> 1\<close>,
  \<open>get_mood_journey\<close> returns the first \<open>n_movies\<close> entries of the concatenation, in order,
  of \<open>recommend_by_mood(start, start, 1)\<close>, then (when \<open>n_movies \<ge> 3\<close>)
  \<open>recommend_by_mood(start, end, n_movies - 2)\<close>, then \<open>recommend_by_mood("neutral", end, 1)\<close>,
  with nothing removed between the calls. The result has
  \<open>min(n_movies, 2 + min(n_movies - 2, catalog size))\<close> entries when \<open>n_movies \<ge> 3\<close>, which is
  exactly \<open>n_movies\<close> whenever the catalog holds at least \<open>n_movies - 2\<close> rows.
\<close>

theorem get_mood_journey_concat:
  assumes "movies_df \<noteq> []" and "1 \<le> n_movies"
  shows "get_mood_journey movies_df start_mood end_mood n_movies =
     take (nat n_movies)
       (recommend_by_mood movies_df start_mood start_mood 1
        @ (if 3 \<le> n_movies
           then recommend_by_mood movies_df start_mood end_mood (n_movies - 2) else [])
        @ recommend_by_mood movies_df ''neutral'' end_mood 1)
   \<and> length (get_mood_journey movies_df start_mood end_mood n_movies) =
       min (nat n_movies)
         (2 + (if 3 \<le> n_movies then min (nat (n_movies - 2)) (length movies_df) else 0))
   \<and> (n_movies - 2 \<le> int (length movies_df) \<longrightarrow>
        length (get_mood_journey movies_df start_mood end_mood n_movies) = nat n_movies)"
proof (intro conjI impI)
  show "get_mood_journey movies_df start_mood end_mood n_movies =
     take (nat n_movies)
       (recommend_by_mood movies_df start_mood start_mood 1
        @ (if 3 \<le> n_movies
           then recommend_by_mood movies_df start_mood end_mood (n_movies - 2) else [])
        @ recommend_by_mood movies_df ''neutral'' end_mood 1)"
    using assms by (rule get_mood_journey_take)
  show "length (get_mood_journey movies_df start_mood end_mood n_movies) =
       min (nat n_movies)
         (2 + (if 3 \<le> n_movies then min (nat (n_movies - 2)) (length movies_df) else 0))"
    using assms by (rule length_get_mood_journey)
  assume "n_movies - 2 \<le> int (length movies_df)"
  then show "length (get_mood_journey movies_df start_mood end_mood n_movies) = nat n_movies"
    using assms by (simp add: length_get_mood_journey)
qed

lemma resolve_sad:
  "resolve_mood ''sad'' = [(''primary'', ''cathartic_sadness''), (''comfort'', ''medium'')]"
  by (simp add: resolve_mood_def MOOD_PRESETS_def dict_get_def lower_def lower_char_def)

lemma resolve_neutral: "resolve_mood ''neutral'' = []"
  by (simp add: resolve_mood_def MOOD_PRESETS_def dict_get_def lower_def lower_char_def)

lemma resolve_feeling_sad: "resolve_feeling ''sad'' = [''pure_joy'', ''cozy_comfort'']"
  by (simp add: resolve_feeling_def DESIRED_FEELINGS_def dict_get_def lower_def
        lower_char_def)

lemma resolve_inspired:
  "resolve_feeling ''inspired'' = [''triumphant_inspired'', ''awe_wonder'', ''bittersweet_hope'']"
  by (simp add: resolve_feeling_def DESIRED_FEELINGS_def dict_get_def lower_def
        lower_char_def)

lemma sample_ranking_sad_sad:
  "mood_ranking sample_catalog ''sad'' ''sad'' = [(1, 7 / 10), (2, 7 / 10), (0, 17 / 50)]"
proof -
  have "mood_scores sample_catalog (resolve_mood ''sad'') (resolve_feeling ''sad'')
          = [(0, 17 / 50), (1, 7 / 10), (2, 7 / 10)]"
    by (simp add: resolve_sad resolve_feeling_sad mood_scores_def sample_catalog_def
          dark_row_def cozy_row_def twin_row_def calculate_match_score_def dict_get_def
          Let_def)
  then show ?thesis by (simp add: mood_ranking_def sorted_reverse_def)
qed

lemma sample_ranking_sad_inspired:
  "mood_ranking sample_catalog ''sad'' ''inspired''
     = [(1, 13 / 30), (2, 13 / 30), (0, 17 / 50)]"
proof -
  have "mood_scores sample_catalog (resolve_mood ''sad'') (resolve_feeling ''inspired'')
          = [(0, 17 / 50), (1, 13 / 30), (2, 13 / 30)]"
    by (simp add: resolve_sad resolve_inspired mood_scores_def sample_catalog_def
          dark_row_def cozy_row_def twin_row_def calculate_match_score_def dict_get_def
          Let_def)
  then show ?thesis by (simp add: mood_ranking_def sorted_reverse_def)
qed

lemma sample_ranking_neutral_inspired:
  "mood_ranking sample_catalog ''neutral'' ''inspired''
     = [(1, 13 / 30), (2, 13 / 30), (0, 6 / 25)]"
proof -
  have "mood_scores sample_catalog (resolve_mood ''neutral'') (resolve_feeling ''inspired'')
          = [(0, 6 / 25), (1, 13 / 30), (2, 13 / 30)]"
    by (simp add: resolve_neutral resolve_inspired mood_scores_def sample_catalog_def
          dark_row_def cozy_row_def twin_row_def calculate_match_score_def dict_get_def
          Let_def)
  then show ?thesis by (simp add: mood_ranking_def sorted_reverse_def)
qed

lemma rec_title_mood_recommendation:
  "rec_title (mood_recommendation movies_df a b item) = movie_title (movies_df ! fst item)"
  by (simp add: mood_recommendation_def Let_def)

text \<open>
  The sample catalog, from sad to inspired in 3 steps: the same row tops all three calls and
  is returned three times.
\<close>

theorem get_mood_journey_concat_witness:
  "sample_catalog \<noteq> [] \<and> (1::int) \<le> 3
   \<and> length (get_mood_journey sample_catalog ''sad'' ''inspired'' 3) = 3
   \<and> map rec_title (get_mood_journey sample_catalog ''sad'' ''inspired'' 3)
       = [''Paddington'', ''Paddington'', ''Paddington'']"
proof -
  have c: "sample_catalog \<noteq> []" by (simp add: sample_catalog_def)
  have n: "(1::int) \<le> 3" by simp
  note journey = get_mood_journey_concat [OF c n, of "''sad''" "''inspired''"]
  have "length (get_mood_journey sample_catalog ''sad'' ''inspired'' 3) = 3"
    using journey [THEN conjunct2, THEN conjunct1] by (simp add: sample_catalog_def)
  moreover have "map rec_title (get_mood_journey sample_catalog ''sad'' ''inspired'' 3)
       = map (\<lambda>i. movie_title (sample_catalog ! i)) [1, 1, 1]"
    using journey [THEN conjunct1]
    by (simp add: recommend_by_mood_take sample_ranking_sad_sad sample_ranking_sad_inspired
          sample_ranking_neutral_inspired rec_title_mood_recommendation)
  ultimately show ?thesis using c n by (simp add: sample_catalog_def cozy_row_def)
qed

text \<open>
  Claim C6 as stated fails on a catalog of one row with \<open>n_movies = 4\<close>: the middle call
  can return only one recommendation, so the journey has 3 entries, not 4.
\<close>

theorem get_mood_journey_counterexample:
  "[dark_row] \<noteq> [] \<and> (1::int) \<le> 4
   \<and> length (get_mood_journey [dark_row] ''sad'' ''inspired'' 4) = 3
   \<and> length (get_mood_journey [dark_row] ''sad'' ''inspired'' 4) \<noteq> nat 4"
  by (simp add: get_mood_journey_def recommend_by_mood_def slice_to_def mood_scores_def
        sorted_reverse_def Let_def)

section \<open>Rounding\<close>

lemma round_half_even_lower: "of_int m \<le> y \<Longrightarrow> m \<le> round_half_even y"
proof -
  assume "of_int m \<le> y"
  then have "m \<le> \<lfloor>y\<rfloor>" by (simp add: le_floor_iff)
  then show ?thesis by (simp add: round_half_even_def Let_def)
qed

lemma round_half_even_upper: "y \<le> of_int m \<Longrightarrow> round_half_even y \<le> m"
proof -
  assume y: "y \<le> of_int m"
  show ?thesis
  proof (cases "y = of_int m")
    case True
    then show ?thesis by (simp add: round_half_even_def Let_def)
  next
    case False
    with y have "y < of_int m" by simp
    then have "\<lfloor>y\<rfloor> < m" by (simp add: floor_less_iff)
    then show ?thesis by (simp add: round_half_even_def Let_def)
  qed
qed

lemma py_round_lower:
  assumes "of_int m / 10 ^ k \<le> x"
  shows "of_int m / 10 ^ k \<le> py_round x k"
proof -
  have "of_int m \<le> x * 10 ^ k" using assms by (simp add: pos_divide_le_eq)
  then have "m \<le> round_half_even (x * 10 ^ k)" by (rule round_half_even_lower)
  then show ?thesis by (simp add: py_round_def divide_le_cancel)
qed

lemma py_round_upper:
  assumes "x \<le> of_int m / 10 ^ k"
  shows "py_round x k \<le> of_int m / 10 ^ k"
proof -
  have "x * 10 ^ k \<le> of_int m" using assms by (simp add: pos_le_divide_eq)
  then have "round_half_even (x * 10 ^ k) \<le> m" by (rule round_half_even_upper)
  then show ?thesis by (simp add: py_round_def divide_le_cancel)
qed

lemma py_round_within:
  assumes "of_int a / 10 ^ k \<le> x" and "x \<le> of_int b / 10 ^ k"
  shows "of_int a / 10 ^ k \<le> py_round x k \<and> py_round x k \<le> of_int b / 10 ^ k"
  using assms py_round_lower py_round_upper by blast

lemma py_round_half: "py_round (1 / 2) 2 = 1 / 2"
  by (simp add: py_round_def round_half_even_def)

section \<open>Confidence\<close>

lemma confidence_synthesize:
  "confidence (synthesize_profile classifier overview genres nw gw) = spec_confidence overview"
  by (auto simp: synthesize_profile_def text_emotions_def spec_confidence_def Let_def
        py_round_half split: option.splits)

lemma spec_confidence_bounds:
  "0.5 \<le> spec_confidence overview \<and> spec_confidence overview \<le> 0.9"
proof (cases overview)
  case None
  then show ?thesis by (simp add: spec_confidence_def)
next
  case (Some t)
  let ?c = "min 0.9 (0.5 + real (length t) / 1000)"
  have "of_int 50 / 10 ^ 2 \<le> ?c" and "?c \<le> of_int 90 / 10 ^ 2"
    by (simp_all add: min_def)
  then have "of_int 50 / 10 ^ 2 \<le> py_round ?c 2 \<and> py_round ?c 2 \<le> of_int 90 / 10 ^ 2"
    by (rule py_round_within)
  with Some show ?thesis by (simp add: spec_confidence_def)
qed

lemma normalize_weights_cases:
  "normalize_weights nw gw =
     (if nw + gw = 0 then Inl ZeroDivisionError
      else if float_overflows (nw + gw) then Inr (0, 0)
      else Inr (nw / (nw + gw), gw / (nw + gw)))"
  by (simp add: normalize_weights_def Let_def)

lemma create_emotion_profile_cases:
  "create_emotion_profile classifier overview genres nw gw =
     (if nw + gw = 0 then Inl ZeroDivisionError
      else if float_overflows (nw + gw)
      then Inr (synthesize_profile classifier overview genres 0 0)
      else Inr (synthesize_profile classifier overview genres
                  (nw / (nw + gw)) (gw / (nw + gw))))"
  by (simp add: create_emotion_profile_def normalize_weights_cases)

lemma create_emotion_profile_returns:
  assumes "nw + gw \<noteq> 0"
  shows "\<exists>a b. create_emotion_profile classifier overview genres nw gw
                 = Inr (synthesize_profile classifier overview genres a b)
          \<and> (0 \<le> nw \<and> 0 \<le> gw \<longrightarrow> 0 \<le> a \<and> 0 \<le> b \<and> a + b \<le> 1)"
proof (cases "float_overflows (nw + gw)")
  case True
  with assms have "create_emotion_profile classifier overview genres nw gw
                 = Inr (synthesize_profile classifier overview genres 0 0)"
    by (simp add: create_emotion_profile_cases)
  then show ?thesis by fastforce
next
  case False
  let ?a = "nw / (nw + gw)" and ?b = "gw / (nw + gw)"
  from False assms have "create_emotion_profile classifier overview genres nw gw
                 = Inr (synthesize_profile classifier overview genres ?a ?b)"
    by (simp add: create_emotion_profile_cases)
  moreover have "?a + ?b = 1" using assms by (simp flip: add_divide_distrib)
  moreover have "0 \<le> ?a \<and> 0 \<le> ?b" if "0 \<le> nw \<and> 0 \<le> gw" using that by simp
  ultimately show ?thesis by fastforce
qed


lemma round_half_even_near: "\<bar>of_int (round_half_even y) - y\<bar> \<le> 1 / 2"
proof -
  have "of_int \<lfloor>y\<rfloor> \<le> y" and "y < of_int \<lfloor>y\<rfloor> + 1" by linarith+
  then show ?thesis by (auto simp: round_half_even_def Let_def)
qed

lemma py_round_near: "\<bar>py_round x k - x\<bar> \<le> 1 / (2 * 10 ^ k)"
proof -
  have "py_round x k - x = (of_int (round_half_even (x * 10 ^ k)) - x * 10 ^ k) / 10 ^ k"
    by (simp add: py_round_def diff_divide_distrib)
  then have "\<bar>py_round x k - x\<bar> = \<bar>of_int (round_half_even (x * 10 ^ k)) - x * 10 ^ k\<bar> / 10 ^ k"
    by simp
  also have "\<dots> \<le> (1 / 2) / 10 ^ k"
    by (intro divide_right_mono round_half_even_near) simp
  finally show ?thesis by simp
qed

lemma spec_confidence_near:
  "(case overview of
      None \<Rightarrow> spec_confidence overview = 0.5
    | Some t \<Rightarrow>
        if length t \<le> 20 then spec_confidence overview = 0.5
        else (\<exists>m::int. spec_confidence overview = of_int m / 100)
             \<and> \<bar>spec_confidence overview - min 0.9 (0.5 + real (length t) / 1000)\<bar> \<le> 0.005)"
proof (cases overview)
  case None
  then show ?thesis by (simp add: spec_confidence_def)
next
  case (Some t)
  let ?c = "min 0.9 (0.5 + real (length t) / 1000)"
  have "\<bar>py_round ?c 2 - ?c\<bar> \<le> 0.005" using py_round_near [of ?c 2] by simp
  moreover have "\<exists>m::int. py_round ?c 2 = of_int m / 100" by (auto simp: py_round_def)
  ultimately show ?thesis using Some by (simp add: spec_confidence_def)
qed

text \<open>
  Claim C10, amended. Whenever the weights have a non-zero sum a profile is produced, and
  its confidence lies in \<open>[0.5, 0.9]\<close>: it is 0.5 if the text is absent or has length at
  most 20, and otherwise \<open>min(0.9, 0.5 + len(text)/1000)\<close> rounded to 2 decimals, that is
  a multiple of 0.01 at most 0.005 away from it (which of the two neighbours an exact
  decimal tie such as 0.525 goes to is left open).
\<close>

theorem confidence_rounded:
  assumes "nlp_weight + genre_weight \<noteq> 0"
  shows "\<exists>p. create_emotion_profile classifier overview genres nlp_weight genre_weight = Inr p
     \<and> (case overview of
           None \<Rightarrow> confidence p = 0.5
         | Some t \<Rightarrow>
             if length t \<le> 20 then confidence p = 0.5
             else (\<exists>m::int. confidence p = of_int m / 100)
                  \<and> \<bar>confidence p - min 0.9 (0.5 + real (length t) / 1000)\<bar> \<le> 0.005)
     \<and> 0.5 \<le> confidence p \<and> confidence p \<le> 0.9"
proof -
  from assms obtain a b where
    p: "create_emotion_profile classifier overview genres nlp_weight genre_weight
          = Inr (synthesize_profile classifier overview genres a b)"
    using create_emotion_profile_returns by blast
  let ?p = "synthesize_profile classifier overview genres a b"
  have c: "confidence ?p = spec_confidence overview" by (rule confidence_synthesize)
  have "case overview of
           None \<Rightarrow> confidence ?p = 0.5
         | Some t \<Rightarrow>
             if length t \<le> 20 then confidence ?p = 0.5
             else (\<exists>m::int. confidence ?p = of_int m / 100)
                  \<and> \<bar>confidence ?p - min 0.9 (0.5 + real (length t) / 1000)\<bar> \<le> 0.005"
    unfolding c by (rule spec_confidence_near)
  moreover have "0.5 \<le> confidence ?p \<and> confidence ?p \<le> 0.9"
    unfolding c by (rule spec_confidence_bounds)
  ultimately show ?thesis using p by blast
qed

lemma py_round_521: "py_round (521 / 1000) 2 = 13 / 25"
  by (simp add: py_round_def round_half_even_def)

text \<open>
  Claim C10 as stated fails for a text of 21 characters: the unrounded formula gives 0.521,
  the profile holds 0.52.
\<close>

theorem confidence_exact_counterexample:
  "map_sum id confidence
     (create_emotion_profile silent_classifier (Some ''A lonely bear arrives'') [] 0.6 0.4)
     = Inr (13 / 25)
   \<and> (13 / 25 :: real) \<noteq> min 0.9 (0.5 + real (length ''A lonely bear arrives'') / 1000)"
  by (simp add: create_emotion_profile_cases float_overflows_def confidence_synthesize
        spec_confidence_def py_round_521)

text \<open>
  For the same text the amended statement leaves only 0.52: it is the one multiple of 0.01
  within 0.005 of 0.521.
\<close>

theorem confidence_rounded_witness:
  "(0.6::real) + 0.4 \<noteq> 0
   \<and> (\<exists>p. create_emotion_profile silent_classifier (Some ''A lonely bear arrives'') []
             0.6 0.4 = Inr p
          \<and> confidence p = 13 / 25 \<and> 0.5 \<le> confidence p \<and> confidence p \<le> 0.9)"
proof -
  have w: "(0.6::real) + 0.4 \<noteq> 0" by simp
  from confidence_rounded [OF w, of silent_classifier "Some ''A lonely bear arrives''" "[]"]
  obtain p and m :: int where
    p: "create_emotion_profile silent_classifier (Some ''A lonely bear arrives'') []
          0.6 0.4 = Inr p"
    and m: "confidence p = of_int m / 100"
    and near: "\<bar>confidence p - 521 / 1000\<bar> \<le> 5 / 1000"
    and range: "0.5 \<le> confidence p" "confidence p \<le> 0.9"
    by auto
  from near have "516 / 1000 \<le> confidence p" "confidence p \<le> 526 / 1000" by linarith+
  then have "516 \<le> 10 * real_of_int m" "10 * real_of_int m \<le> 526" by (simp_all add: m)
  then have "516 \<le> 10 * m" "10 * m \<le> 526" by linarith+
  then have "m = 52" by presburger
  then have "confidence p = 13 / 25" by (simp add: m)
  with p range w show ?thesis by blast
qed

section \<open>Errors\<close>








section \<open>Score ranges\<close>

lemma set_update_subset: "set (AList.update k v d) \<subseteq> insert (k, v) (set d)"
  by (induction d) auto

lemma values_within_update:
  "values_within lo hi d \<Longrightarrow> lo \<le> v \<Longrightarrow> v \<le> hi \<Longrightarrow> values_within lo hi (AList.update k v d)"
  using set_update_subset [of k v d] by (auto simp: values_within_def)

lemma values_within_lookup:
  "values_within lo hi d \<Longrightarrow> map_of d k = Some v \<Longrightarrow> lo \<le> v \<and> v \<le> hi"
proof -
  assume w: "values_within lo hi d" and "map_of d k = Some v"
  then have "(k, v) \<in> set d" by (simp add: map_of_SomeD)
  with w show ?thesis unfolding values_within_def by fastforce
qed

lemma dict_get_within:
  "values_within lo hi d \<Longrightarrow> lo \<le> dflt \<Longrightarrow> dflt \<le> hi \<Longrightarrow>
   lo \<le> dict_get d k dflt \<and> dict_get d k dflt \<le> hi"
  by (auto simp: dict_get_def dest: values_within_lookup split: option.splits)

lemma values_within_empty: "values_within lo hi []"
  by (simp add: values_within_def)

lemma fold_update_within:
  "values_within lo hi results \<Longrightarrow> values_within lo hi acc \<Longrightarrow>
   values_within lo hi
     (fold (\<lambda>(label, score) emotions. AList.update (lower label) score emotions) results acc)"
proof (induction results arbitrary: acc)
  case Nil
  then show ?case by simp
next
  case (Cons r results)
  from Cons.prems(1) have r: "lo \<le> snd r \<and> snd r \<le> hi" and rest: "values_within lo hi results"
    by (simp_all add: values_within_def)
  have "values_within lo hi (AList.update (lower (fst r)) (snd r) acc)"
    using Cons.prems(2) r by (simp add: values_within_update)
  then show ?case using Cons.IH [OF rest] by (simp add: split_def)
qed

lemma classify_text_within:
  "classifier_contract classifier \<Longrightarrow> values_within 0 1 (classify_text classifier t)"
  by (auto simp: classify_text_def classifier_contract_def Let_def values_within_empty
        fold_update_within split: option.splits)

lemma map_step_within:
  "values_within lo hi acc \<Longrightarrow> lo \<le> snd item \<Longrightarrow> snd item \<le> hi \<Longrightarrow>
   values_within lo hi (map_step item acc)"
proof -
  assume a: "values_within lo hi acc" "lo \<le> snd item" "snd item \<le> hi"
  show ?thesis
  proof (cases "model_category (fst item)")
    case None
    with a show ?thesis by (simp add: map_step_def)
  next
    case (Some category)
    show ?thesis
    proof (cases "map_of acc category")
      case None
      with Some a show ?thesis by (simp add: map_step_def values_within_update)
    next
      case (Some old)
      with a have "lo \<le> old \<and> old \<le> hi" by (auto dest: values_within_lookup)
      with a have "lo \<le> max old (snd item) \<and> max old (snd item) \<le> hi" by simp
      with Some \<open>model_category (fst item) = Some category\<close> a show ?thesis
        by (simp add: map_step_def values_within_update)
    qed
  qed
qed

lemma fold_map_step_within:
  "values_within lo hi emotions \<Longrightarrow> values_within lo hi acc \<Longrightarrow>
   values_within lo hi (fold map_step emotions acc)"
proof (induction emotions arbitrary: acc)
  case Nil
  then show ?case by simp
next
  case (Cons e emotions)
  from Cons.prems(1) have e: "lo \<le> snd e" "snd e \<le> hi" and rest: "values_within lo hi emotions"
    by (simp_all add: values_within_def)
  show ?case using Cons.IH [OF rest] map_step_within [OF Cons.prems(2) e] by simp
qed

lemma map_to_categories_within:
  "values_within lo hi emotions \<Longrightarrow> values_within lo hi (map_to_categories emotions)"
  by (simp add: map_to_categories_def fold_map_step_within values_within_empty)

lemma emotion_step_within:
  "values_within lo hi acc \<Longrightarrow> lo \<le> snd item \<Longrightarrow> snd item \<le> hi \<Longrightarrow>
   values_within lo hi (emotion_step item acc)"
proof (cases "map_of acc (fst item)")
  case None
  assume "values_within lo hi acc" "lo \<le> snd item" "snd item \<le> hi"
  with None show ?thesis by (simp add: emotion_step_def values_within_update)
next
  case (Some old)
  assume a: "values_within lo hi acc" "lo \<le> snd item" "snd item \<le> hi"
  with Some have "lo \<le> old \<and> old \<le> hi" by (auto dest: values_within_lookup)
  with a have "lo \<le> (old + snd item) / 2 \<and> (old + snd item) / 2 \<le> hi" by simp
  with a Some show ?thesis by (simp add: emotion_step_def values_within_update)
qed

lemma fold_emotion_step_within:
  "values_within lo hi d \<Longrightarrow> values_within lo hi acc \<Longrightarrow>
   values_within lo hi (fold emotion_step d acc)"
proof (induction d arbitrary: acc)
  case Nil
  then show ?case by simp
next
  case (Cons e d)
  from Cons.prems(1) have e: "lo \<le> snd e" "snd e \<le> hi" and rest: "values_within lo hi d"
    by (simp_all add: values_within_def)
  show ?case using Cons.IH [OF rest] emotion_step_within [OF Cons.prems(2) e] by simp
qed

lemma genre_table_within:
  assumes "map_of GENRE_EMOTION_MAP g = Some d"
  shows "values_within 0 1 d"
proof -
  have "\<forall>p \<in> set GENRE_EMOTION_MAP. values_within 0 1 (snd p)"
    by (simp add: GENRE_EMOTION_MAP_def values_within_def)
  moreover from assms have "(g, d) \<in> set GENRE_EMOTION_MAP" by (rule map_of_SomeD)
  ultimately show ?thesis by fastforce
qed

lemma genre_step_within:
  "values_within 0 1 acc \<Longrightarrow> values_within 0 1 (genre_step g acc)"
  by (auto simp: genre_step_def Let_def fold_emotion_step_within genre_table_within
        split: option.splits)

lemma fold_genre_step_within:
  "values_within 0 1 acc \<Longrightarrow> values_within 0 1 (fold genre_step gs acc)"
  by (induction gs arbitrary: acc) (simp_all add: genre_step_within)

lemma get_genre_emotions_within: "values_within 0 1 (get_genre_emotions genres)"
  by (simp add: get_genre_emotions_def fold_genre_step_within values_within_empty)

lemma text_emotions_within:
  "classifier_contract classifier \<Longrightarrow>
   values_within 0 1 (fst (text_emotions classifier overview))"
  by (simp add: text_emotions_def values_within_empty map_to_categories_within
        classify_text_within split: option.splits)


lemma convex_within:
  fixes x y a b :: real
  assumes "0 \<le> x" "x \<le> 1" "0 \<le> y" "y \<le> 1" "0 \<le> a" "0 \<le> b" "a + b \<le> 1"
  shows "0 \<le> x * a + y * b \<and> x * a + y * b \<le> 1"
proof -
  have "x * a \<le> 1 * a" using assms by (intro mult_right_mono) auto
  moreover have "y * b \<le> 1 * b" using assms by (intro mult_right_mono) auto
  moreover have "0 \<le> x * a" "0 \<le> y * b" using assms by auto
  ultimately show ?thesis using assms by linarith
qed

lemma combine_step_within:
  assumes "values_within 0 1 nlp" "values_within 0 1 genre" "0 \<le> a" "0 \<le> b" "a + b \<le> 1"
    and "values_within 0 1 acc"
  shows "values_within 0 1 (combine_step nlp genre a b category acc)"
proof -
  let ?x = "dict_get nlp category 0" and ?y = "dict_get genre category 0"
  have x: "0 \<le> ?x \<and> ?x \<le> 1" using assms(1) by (intro dict_get_within) auto
  have y: "0 \<le> ?y \<and> ?y \<le> 1" using assms(2) by (intro dict_get_within) auto
  have c: "0 \<le> ?x * a + ?y * b \<and> ?x * a + ?y * b \<le> 1"
    using x y assms(3-5) by (intro convex_within) auto
  then have "of_int 0 / 10 ^ 3 \<le> ?x * a + ?y * b" "?x * a + ?y * b \<le> of_int 1000 / 10 ^ 3"
    by simp_all
  then have "of_int 0 / 10 ^ 3 \<le> py_round (?x * a + ?y * b) 3
             \<and> py_round (?x * a + ?y * b) 3 \<le> of_int 1000 / 10 ^ 3"
    by (rule py_round_within)
  then have "0 \<le> py_round (?x * a + ?y * b) 3 \<and> py_round (?x * a + ?y * b) 3 \<le> 1"
    by simp
  then show ?thesis
    using assms(6) by (simp add: combine_step_def Let_def values_within_update)
qed

lemma combine_emotions_within:
  assumes "values_within 0 1 nlp" "values_within 0 1 genre" "0 \<le> a" "0 \<le> b" "a + b \<le> 1"
  shows "values_within 0 1 (combine_emotions nlp genre a b)"
proof -
  have "values_within 0 1 acc \<Longrightarrow> values_within 0 1 (fold (combine_step nlp genre a b) cs acc)"
    for cs acc
    by (induction cs arbitrary: acc) (simp_all add: combine_step_within [OF assms])
  then show ?thesis by (simp add: combine_emotions_def values_within_empty)
qed

lemma fold_max_within:
  fixes x :: real
  shows "lo \<le> x \<Longrightarrow> x \<le> hi \<Longrightarrow> \<forall>y \<in> set xs. lo \<le> y \<and> y \<le> hi \<Longrightarrow>
         lo \<le> fold max xs x \<and> fold max xs x \<le> hi"
  by (induction xs arbitrary: x) auto

lemma max_or_zero_within:
  "\<forall>y \<in> set xs. 0 \<le> y \<and> y \<le> hi \<Longrightarrow> 0 \<le> hi \<Longrightarrow>
   0 \<le> max_or_zero xs \<and> max_or_zero xs \<le> hi"
proof (cases xs)
  case Nil
  assume "0 \<le> hi"
  with Nil show ?thesis by (simp add: max_or_zero_def)
next
  case (Cons x rest)
  assume "\<forall>y \<in> set xs. 0 \<le> y \<and> y \<le> hi"
  with Cons have "0 \<le> x" "x \<le> hi" "\<forall>y \<in> set rest. 0 \<le> y \<and> y \<le> hi" by simp_all
  then have "0 \<le> fold max rest x \<and> fold max rest x \<le> hi" by (rule fold_max_within)
  with Cons show ?thesis by (simp add: max_or_zero_def)
qed

lemma sum_list_within:
  fixes xs :: "real list"
  shows "\<forall>y \<in> set xs. lo \<le> y \<and> y \<le> hi \<Longrightarrow>
         lo * real (length xs) \<le> sum_list xs \<and> sum_list xs \<le> hi * real (length xs)"
  by (induction xs) (auto simp: algebra_simps)

lemma mean_within:
  fixes xs :: "real list"
  assumes "\<forall>y \<in> set xs. lo \<le> y \<and> y \<le> hi" and "xs \<noteq> []"
  shows "lo \<le> sum_list xs / real (length xs) \<and> sum_list xs / real (length xs) \<le> hi"
proof -
  have "0 < real (length xs)" using assms(2) by simp
  then show ?thesis
    using sum_list_within [OF assms(1)] by (simp add: pos_le_divide_eq pos_divide_le_eq)
qed

lemma mean_or_zero_within:
  "\<forall>y \<in> set xs. 0 \<le> y \<and> y \<le> hi \<Longrightarrow> 0 \<le> hi \<Longrightarrow>
   0 \<le> mean_or_zero xs \<and> mean_or_zero xs \<le> hi"
  using mean_within [of xs 0 hi] by (simp add: mean_or_zero_def)

lemma get_intensity_from_genres_within:
  "3 \<le> get_intensity_from_genres genres \<and> get_intensity_from_genres genres \<le> 8"
proof (cases "genres = []")
  case True
  then show ?thesis by (simp add: get_intensity_from_genres_def)
next
  case False
  then show ?thesis
    unfolding get_intensity_from_genres_def Let_def
    by (simp only: map_is_Nil_conv if_True if_False simp_thms) (rule mean_within, auto)
qed

lemma get_comfort_from_genres_within:
  "2 \<le> get_comfort_from_genres genres \<and> get_comfort_from_genres genres \<le> 8"
proof (cases "genres = []")
  case True
  then show ?thesis by (simp add: get_comfort_from_genres_def)
next
  case False
  then show ?thesis
    unfolding get_comfort_from_genres_def Let_def
    by (simp only: map_is_Nil_conv if_True if_False simp_thms) (rule mean_within, auto)
qed


lemma scores_within:
  "values_within 0 1 emotions \<Longrightarrow>
   \<forall>y \<in> set (map (\<lambda>e. dict_get emotions e 0) es). 0 \<le> y \<and> y \<le> 1"
  using dict_get_within [of 0 1 emotions 0] by auto

lemma intensity_arith:
  fixes e g :: real
  shows "0 \<le> e \<and> e \<le> 1 \<Longrightarrow> 3 \<le> g \<and> g \<le> 8 \<Longrightarrow>
         0 \<le> (e * 0.7 + g / 10 * 0.3) * 10 \<and> (e * 0.7 + g / 10 * 0.3) * 10 \<le> 10"
  by simp

lemma catharsis_arith:
  fixes m a :: real
  shows "0 \<le> m \<and> m \<le> 1 \<Longrightarrow> 0 \<le> a \<and> a \<le> 1 \<Longrightarrow>
         0 \<le> (m * 0.7 + a * 0.3) * 10 \<and> (m * 0.7 + a * 0.3) * 10 \<le> 10"
  by simp

lemma calculate_intensity_within:
  assumes "values_within 0 1 emotions"
  shows "0 \<le> calculate_intensity emotions genres \<and> calculate_intensity emotions genres \<le> 10"
  unfolding calculate_intensity_def Let_def
  by (rule intensity_arith, rule max_or_zero_within, rule scores_within, rule assms, simp,
      rule get_intensity_from_genres_within)

lemma calculate_catharsis_within:
  assumes "values_within 0 1 emotions"
  shows "0 \<le> calculate_catharsis emotions \<and> calculate_catharsis emotions \<le> 10"
  unfolding calculate_catharsis_def Let_def
  by (rule catharsis_arith, rule max_or_zero_within, rule scores_within, rule assms, simp,
      rule mean_or_zero_within, rule scores_within, rule assms, simp)

lemma calculate_comfort_within:
  "0 \<le> calculate_comfort emotions genres \<and> calculate_comfort emotions genres \<le> 10"
  by (simp add: calculate_comfort_def Let_def)

lemma py_round_one_within:
  assumes "0 \<le> x \<and> x \<le> 10"
  shows "0 \<le> py_round x 1 \<and> py_round x 1 \<le> 10"
proof -
  from assms have "of_int 0 / 10 ^ 1 \<le> x" "x \<le> of_int 100 / 10 ^ 1" by simp_all
  then have "of_int 0 / 10 ^ 1 \<le> py_round x 1 \<and> py_round x 1 \<le> of_int 100 / 10 ^ 1"
    by (rule py_round_within)
  then show ?thesis by simp
qed

lemma synthesize_profile_fields:
  "emotion_scores (synthesize_profile classifier overview genres a b)
     = combine_emotions (fst (text_emotions classifier overview)) (get_genre_emotions genres) a b"
  "intensity_score (synthesize_profile classifier overview genres a b)
     = py_round (calculate_intensity
         (combine_emotions (fst (text_emotions classifier overview))
            (get_genre_emotions genres) a b) genres) 1"
  "catharsis_score (synthesize_profile classifier overview genres a b)
     = py_round (calculate_catharsis
         (combine_emotions (fst (text_emotions classifier overview))
            (get_genre_emotions genres) a b)) 1"
  "comfort_score (synthesize_profile classifier overview genres a b)
     = py_round (calculate_comfort
         (combine_emotions (fst (text_emotions classifier overview))
            (get_genre_emotions genres) a b) genres) 1"
  "dominant_emotions (synthesize_profile classifier overview genres a b)
     = map fst (take 3 (sorted_reverse snd
         (combine_emotions (fst (text_emotions classifier overview))
            (get_genre_emotions genres) a b)))"
  by (simp_all add: synthesize_profile_def Let_def split_def)

lemma synthesize_profile_within:
  assumes "classifier_contract classifier" "0 \<le> a" "0 \<le> b" "a + b \<le> 1"
  shows "0 \<le> intensity_score (synthesize_profile classifier overview genres a b)
       \<and> intensity_score (synthesize_profile classifier overview genres a b) \<le> 10
       \<and> 0 \<le> catharsis_score (synthesize_profile classifier overview genres a b)
       \<and> catharsis_score (synthesize_profile classifier overview genres a b) \<le> 10
       \<and> 0 \<le> comfort_score (synthesize_profile classifier overview genres a b)
       \<and> comfort_score (synthesize_profile classifier overview genres a b) \<le> 10"
proof -
  let ?combined = "combine_emotions (fst (text_emotions classifier overview))
            (get_genre_emotions genres) a b"
  have w: "values_within 0 1 ?combined"
    using assms
    by (intro combine_emotions_within text_emotions_within get_genre_emotions_within)
  have "0 \<le> py_round (calculate_intensity ?combined genres) 1
        \<and> py_round (calculate_intensity ?combined genres) 1 \<le> 10"
    by (rule py_round_one_within, rule calculate_intensity_within, rule w)
  moreover have "0 \<le> py_round (calculate_catharsis ?combined) 1
        \<and> py_round (calculate_catharsis ?combined) 1 \<le> 10"
    by (rule py_round_one_within, rule calculate_catharsis_within, rule w)
  moreover have "0 \<le> py_round (calculate_comfort ?combined genres) 1
        \<and> py_round (calculate_comfort ?combined genres) 1 \<le> 10"
    by (rule py_round_one_within, rule calculate_comfort_within)
  ultimately show ?thesis by (simp only: synthesize_profile_fields)
qed

text \<open>
  Claim C5. Under the classifier contract (every classifier score lies in \<open>[0, 1]\<close>), for
  every text and genre input and all non-negative weights with a positive sum (the
  defaults 0.6 and 0.4 among them) a profile is produced, its intensity, catharsis and
  comfort scores lie in \<open>[0, 10]\<close> and its confidence lies in \<open>[0, 1]\<close>, although only
  the comfort formula clamps.
\<close>

theorem profile_scalars_in_range:
  assumes "classifier_contract classifier"
    and "0 \<le> nlp_weight" and "0 \<le> genre_weight" and "0 < nlp_weight + genre_weight"
  shows "\<exists>p. create_emotion_profile classifier overview genres nlp_weight genre_weight = Inr p
     \<and> 0 \<le> intensity_score p \<and> intensity_score p \<le> 10
     \<and> 0 \<le> catharsis_score p \<and> catharsis_score p \<le> 10
     \<and> 0 \<le> comfort_score p \<and> comfort_score p \<le> 10
     \<and> 0 \<le> confidence p \<and> confidence p \<le> 1"
proof -
  from assms(4) have "nlp_weight + genre_weight \<noteq> 0" by simp
  then obtain a b where
    p: "create_emotion_profile classifier overview genres nlp_weight genre_weight
          = Inr (synthesize_profile classifier overview genres a b)"
    and ab: "0 \<le> nlp_weight \<and> 0 \<le> genre_weight \<longrightarrow> 0 \<le> a \<and> 0 \<le> b \<and> a + b \<le> 1"
    using create_emotion_profile_returns by blast
  let ?p = "synthesize_profile classifier overview genres a b"
  from ab assms(2,3) have "0 \<le> a" "0 \<le> b" "a + b \<le> 1" by simp_all
  with assms(1) have scalars:
    "0 \<le> intensity_score ?p \<and> intensity_score ?p \<le> 10
     \<and> 0 \<le> catharsis_score ?p \<and> catharsis_score ?p \<le> 10
     \<and> 0 \<le> comfort_score ?p \<and> comfort_score ?p \<le> 10"
    by (intro synthesize_profile_within)
  have conf: "0 \<le> confidence ?p \<and> confidence ?p \<le> 1"
    using spec_confidence_bounds [of overview] by (simp add: confidence_synthesize)
  from p scalars conf show ?thesis by blast
qed

lemma sample_contract: "classifier_contract sample_classifier"
  by (simp add: classifier_contract_def sample_classifier_def values_within_def)

theorem profile_scalars_in_range_witness:
  "(0::real) \<le> 0.6 \<and> (0::real) \<le> 0.4 \<and> (0::real) < 0.6 + 0.4
   \<and> (\<exists>p. create_emotion_profile sample_classifier
              (Some ''A young bear travels to London in search of a home.'')
              [''Family'', ''Comedy''] 0.6 0.4 = Inr p
     \<and> 0 \<le> intensity_score p \<and> intensity_score p \<le> 10
     \<and> 0 \<le> catharsis_score p \<and> catharsis_score p \<le> 10
     \<and> 0 \<le> comfort_score p \<and> comfort_score p \<le> 10
     \<and> 0 \<le> confidence p \<and> confidence p \<le> 1)"
proof -
  have a: "(0::real) \<le> 0.6" and b: "(0::real) \<le> 0.4" and c: "(0::real) < 0.6 + 0.4"
    by simp_all
  show ?thesis
    using profile_scalars_in_range [OF sample_contract a b c] a b c
    by blast
qed

section \<open>Dominant emotions\<close>

























end
